theory Spec2Isabelle
  imports Main
begin

section \<open>Version manager of the launcher: model of versionManager.js\<close>

text \<open>
  The model follows \<^verbatim>\<open>src/backend/services/versionManager.js\<close> function by function.

  \<^item> A JavaScript string is the list of its code units (\<^typ>\<open>string\<close>), for strings whose
    code units are below 256; a value that is a string or \<^verbatim>\<open>null\<close>/\<^verbatim>\<open>undefined\<close> is a
    \<^typ>\<open>string option\<close>.
  \<^item> The arguments of the functions and the data received over the network have the types
    that the data model and the external interfaces of the specification give them:
    versions are strings or \<^verbatim>\<open>null\<close>, the members of a manifest entry are strings, a build
    number and a truth value, \<^verbatim>\<open>client_version\<close> is a string. Values of other types are
    outside the model.
  \<^item> A JavaScript number is an IEEE double. The numbers of this module are integral, infinite
    or \<^verbatim>\<open>NaN\<close>: they are values of the type \<open>number\<close> below, and every arithmetic result is
    rounded to the nearest double, so that \<open>2^53 + 1\<close> is \<open>2^53\<close> as in the source. Time stamps
    (\<^verbatim>\<open>Date.now()\<close>, in milliseconds) are integers far below \<open>2^53\<close> and are kept as \<^typ>\<open>int\<close>.
  \<^item> A loop of the source that does not end for some inputs is a partial function with an
    optional result: \<^term>\<open>None\<close> is the call that never returns. The memory of the engine
    is not modelled: a list is as long as the loop makes it.
  \<^item> \<^verbatim>\<open>!x\<close> is JavaScript falsiness: of a string-or-null it holds for \<^verbatim>\<open>null\<close> and for
    the empty string, of a number-or-null for \<^verbatim>\<open>null\<close> and for \<open>0\<close>.
  \<^item> A thrown exception or rejected promise is the left summand of a sum type \<^verbatim>\<open>error + 'a\<close>.
  \<^item> Default parameter values (\<^verbatim>\<open>branch = 'release'\<close>, \<^verbatim>\<open>maxProbe = 50\<close>) are applied by
    the caller: the model takes the parameters after defaulting. \<^verbatim>\<open>maxProbe\<close> is a number.
  \<^item> Console output is not modelled.
\<close>

subsection \<open>JavaScript primitives used by the module\<close>

datatype error = Error string

definition truthy :: "string option \<Rightarrow> bool" where
  "truthy v = (case v of None \<Rightarrow> False | Some s \<Rightarrow> s \<noteq> [])"

text \<open>Numbers. \<open>Finite i\<close> is the double with the integral value \<open>i\<close>; negative zero is not
  told from zero, which no operation of the module does either.\<close>

datatype number = NaN | NegInfinity | Finite int | PosInfinity

fun bitLength :: "nat \<Rightarrow> nat" where
  "bitLength n = (if n = 0 then 0 else Suc (bitLength (n div 2)))"

declare bitLength.simps [simp del]

text \<open>Rounding of a natural number to the nearest number with 53 significant bits, ties to
  the even significand: below \<open>2^53\<close> nothing is lost; above, the \<open>e\<close> low bits are
  dropped and the rest goes up when they are more than half, or half with an odd rest.\<close>

definition roundMagnitude :: "nat \<Rightarrow> nat" where
  "roundMagnitude a =
     (if a < 2 ^ 53 then a
      else (let e = bitLength a - 53;
                q = a div 2 ^ e;
                r = a mod 2 ^ e
            in if r > 2 ^ (e - 1) \<or> (r = 2 ^ (e - 1) \<and> odd q) then (q + 1) * 2 ^ e
               else q * 2 ^ e))"

text \<open>The Number value of an integer: the nearest double, infinite from \<open>2^1024\<close> on.\<close>

definition toNumber :: "int \<Rightarrow> number" where
  "toNumber x =
     (if roundMagnitude (nat \<bar>x\<bar>) \<ge> 2 ^ 1024
      then (if x < 0 then NegInfinity else PosInfinity)
      else Finite (if x < 0 then - int (roundMagnitude (nat \<bar>x\<bar>))
                   else int (roundMagnitude (nat \<bar>x\<bar>))))"

fun numNeg :: "number \<Rightarrow> number" where
  "numNeg NaN = NaN"
| "numNeg NegInfinity = PosInfinity"
| "numNeg (Finite a) = Finite (- a)"
| "numNeg PosInfinity = NegInfinity"

text \<open>\<^verbatim>\<open>a + b\<close> and \<^verbatim>\<open>a - b\<close>: the exact sum of two integral doubles, rounded.\<close>

fun numAdd :: "number \<Rightarrow> number \<Rightarrow> number" where
  "numAdd NaN b = NaN"
| "numAdd a NaN = NaN"
| "numAdd PosInfinity NegInfinity = NaN"
| "numAdd NegInfinity PosInfinity = NaN"
| "numAdd PosInfinity b = PosInfinity"
| "numAdd NegInfinity b = NegInfinity"
| "numAdd a PosInfinity = PosInfinity"
| "numAdd a NegInfinity = NegInfinity"
| "numAdd (Finite a) (Finite b) = toNumber (a + b)"

definition numSub :: "number \<Rightarrow> number \<Rightarrow> number" where
  "numSub a b = numAdd a (numNeg b)"

text \<open>\<^verbatim>\<open>a <= b\<close> and \<^verbatim>\<open>a < b\<close>, false as soon as an operand is \<^verbatim>\<open>NaN\<close>; \<^verbatim>\<open>a === b\<close>;
  \<^verbatim>\<open>Math.max(a, b)\<close>; \<^verbatim>\<open>isNaN(a)\<close>.\<close>

fun numLe :: "number \<Rightarrow> number \<Rightarrow> bool" where
  "numLe NaN b = False"
| "numLe a NaN = False"
| "numLe NegInfinity b = True"
| "numLe a PosInfinity = True"
| "numLe (Finite a) (Finite b) = (a \<le> b)"
| "numLe a b = False"

definition numLess :: "number \<Rightarrow> number \<Rightarrow> bool" where
  "numLess a b = (numLe a b \<and> a \<noteq> b)"

definition strictEquals :: "number \<Rightarrow> number \<Rightarrow> bool" where
  "strictEquals a b = (a \<noteq> NaN \<and> a = b)"

definition numMax :: "number \<Rightarrow> number \<Rightarrow> number" where
  "numMax a b = (if a = NaN \<or> b = NaN then NaN else if numLe a b then b else a)"

definition isNaN :: "number \<Rightarrow> bool" where
  "isNaN a = (a = NaN)"

definition isDigit :: "char \<Rightarrow> bool" where
  "isDigit c = (c \<in> set ''0123456789'')"

text \<open>White space skipped by \<^verbatim>\<open>parseInt\<close>, among the code units below 256:
  TAB, LF, VT, FF, CR, SP and NBSP.\<close>

definition isWhiteSpace :: "char \<Rightarrow> bool" where
  "isWhiteSpace c = ((of_char c :: nat) \<in> {9, 10, 11, 12, 13, 32, 160})"

text \<open>The value of a code unit as a digit: \<open>0\<close>-\<open>9\<close>, then the letters of either case
  from 10 on; 36 for everything else, which is a digit in no radix.\<close>

definition digitValue :: "char \<Rightarrow> nat" where
  "digitValue c =
     (if isDigit c then of_char c - 48
      else if c \<in> set ''abcdefghijklmnopqrstuvwxyz'' then of_char c - 87
      else if c \<in> set ''ABCDEFGHIJKLMNOPQRSTUVWXYZ'' then of_char c - 55
      else 36)"

definition isRadixDigit :: "nat \<Rightarrow> char \<Rightarrow> bool" where
  "isRadixDigit R c = (digitValue c < R)"

definition radixValue :: "nat \<Rightarrow> string \<Rightarrow> nat" where
  "radixValue R Z = foldl (\<lambda>a c. R * a + digitValue c) 0 Z"

text \<open>\<^verbatim>\<open>parseInt(string)\<close> with no radix argument: leading white space is skipped, one sign
  is read, a prefix \<^verbatim>\<open>0x\<close>/\<^verbatim>\<open>0X\<close> selects radix 16 and radix 10 is used otherwise, and the
  longest run of digits of that radix is read. An empty run is \<^verbatim>\<open>NaN\<close>; otherwise the
  result is the Number value of the signed integer that the run denotes (the language
  standard lets an implementation replace decimal digits after the 20th by zeros; V8, the
  engine of the launcher, does not).\<close>

definition parseInt :: "string \<Rightarrow> number" where
  "parseInt string =
     (let S = dropWhile isWhiteSpace string;
          sign = (if S \<noteq> [] \<and> hd S = CHR ''-'' then - 1 else 1);
          S1 = (if S \<noteq> [] \<and> (hd S = CHR ''+'' \<or> hd S = CHR ''-'') then tl S else S);
          hex = (take 2 S1 = ''0x'' \<or> take 2 S1 = ''0X'');
          R = (if hex then 16 else 10);
          S2 = (if hex then drop 2 S1 else S1);
          Z = takeWhile (isRadixDigit R) S2
      in if Z = [] then NaN else toNumber (sign * int (radixValue R Z)))"

text \<open>\<^verbatim>\<open>version.match(/v(\d+)/)\<close>: the leftmost \<open>v\<close> that a digit follows; the capture is the
  longest run of digits after it. \<^term>\<open>None\<close> is the \<^verbatim>\<open>null\<close> of no match.\<close>

fun match_v :: "string \<Rightarrow> string option" where
  "match_v [] = None"
| "match_v (c # cs) =
     (if c = CHR ''v'' \<and> takeWhile isDigit cs \<noteq> [] then Some (takeWhile isDigit cs)
      else match_v cs)"

text \<open>\<^verbatim>\<open>version.match(/(\d+)\.pwr/)\<close>: the leftmost position where a run of digits starts
  that \<^verbatim>\<open>.pwr\<close> follows. The run is taken greedily; giving digits back cannot help, since
  the code unit after a shorter run is a digit and not the dot.\<close>

fun match_pwr :: "string \<Rightarrow> string option" where
  "match_pwr [] = None"
| "match_pwr (c # cs) =
     (if isDigit c \<and> take 4 (dropWhile isDigit (c # cs)) = ''.pwr''
      then Some (takeWhile isDigit (c # cs))
      else match_pwr cs)"

text \<open>Template-literal conversion \<^verbatim>\<open>${i}\<close> of a number. Below \<open>2^53\<close> an integral number is
  printed with its decimal digits. From \<open>2^53\<close> on the number is printed with the shortest
  run of digits \<open>s\<close> and the exponent \<open>n\<close> such that \<open>s * 10^(n - k)\<close>, \<open>k\<close> the length of
  the run, rounds to it, and of several such runs with the one that is closest to it (the
  even one when two are as close), as V8 does; the digits are followed by zeros up to
  \<open>n = 21\<close> and written in exponent form beyond.\<close>

definition digitChar :: "nat \<Rightarrow> char" where
  "digitChar d = ''0123456789'' ! d"

fun digitsOf :: "nat \<Rightarrow> string" where
  "digitsOf n = (if n < 10 then [digitChar n] else digitsOf (n div 10) @ [digitChar (n mod 10)])"

declare digitsOf.simps [simp del]

text \<open>The runs of \<open>k\<close> digits with their exponents that round to \<open>x\<close>, a number of \<open>d\<close>
  digits: the multiples of \<open>10^(n - k)\<close> next to \<open>x\<close>, for \<open>n = d\<close> and \<open>n = d + 1\<close>.\<close>

definition candidates :: "nat \<Rightarrow> nat \<Rightarrow> nat \<Rightarrow> (nat \<times> nat) list" where
  "candidates x d k =
     concat (map (\<lambda>n. map (\<lambda>s. (s, n))
                        (filter (\<lambda>s. 10 ^ (k - 1) \<le> s \<and> s < 10 ^ k
                                      \<and> toNumber (int (s * 10 ^ (n - k))) = Finite (int x))
                           [x div 10 ^ (n - k), x div 10 ^ (n - k) + 1]))
               [d, d + 1])"

definition distance :: "nat \<Rightarrow> nat \<Rightarrow> nat \<times> nat \<Rightarrow> nat" where
  "distance x k c = (let t = fst c * 10 ^ (snd c - k) in if t \<le> x then x - t else t - x)"

definition closer :: "nat \<Rightarrow> nat \<Rightarrow> nat \<times> nat \<Rightarrow> nat \<times> nat \<Rightarrow> nat \<times> nat" where
  "closer x k c b =
     (if distance x k c < distance x k b \<or> (distance x k c = distance x k b \<and> even (fst c))
      then c else b)"

definition shortest :: "nat \<Rightarrow> nat \<times> nat" where
  "shortest x =
     (let d = length (digitsOf x)
      in case List.find (\<lambda>k. candidates x d k \<noteq> []) [1..<Suc d] of
           Some k \<Rightarrow> foldr (closer x k) (candidates x d k) (hd (candidates x d k))
         | None \<Rightarrow> (x, d))"

definition magnitudeToString :: "nat \<Rightarrow> string" where
  "magnitudeToString x =
     (if x < 2 ^ 53 then digitsOf x
      else (let s = digitsOf (fst (shortest x)); k = length s; n = snd (shortest x)
            in if n \<le> 21 then s @ replicate (n - k) CHR ''0''
               else (if k = 1 then s else hd s # ''.'' @ tl s) @ ''e+'' @ digitsOf (n - 1)))"

definition numberToString :: "number \<Rightarrow> string" where
  "numberToString x =
     (case x of
        NaN \<Rightarrow> ''NaN''
      | PosInfinity \<Rightarrow> ''Infinity''
      | NegInfinity \<Rightarrow> ''-Infinity''
      | Finite i \<Rightarrow> if i < 0 then ''-'' @ magnitudeToString (nat (- i))
                    else magnitudeToString (nat i))"

subsection \<open>Version codec\<close>

text \<open>\<^verbatim>\<open>extractVersionNumber(version)\<close>.\<close>

definition extractVersionNumber :: "string option \<Rightarrow> number" where
  "extractVersionNumber version =
     (case version of
        None \<Rightarrow> Finite 0
      | Some s \<Rightarrow>
          if s = [] then Finite 0
          else (case match_v s of
                  Some vMatch \<Rightarrow> parseInt vMatch
                | None \<Rightarrow>
                    (case match_pwr s of
                       Some pwrMatch \<Rightarrow> parseInt pwrMatch
                     | None \<Rightarrow>
                         (let num = parseInt s in if isNaN num then Finite 0 else num))))"


text \<open>\<^verbatim>\<open>a || b\<close> on strings and \<^verbatim>\<open>a || null\<close>: the left operand when it is truthy.\<close>

definition orElse :: "string option \<Rightarrow> string \<Rightarrow> string" where
  "orElse v d = (case v of None \<Rightarrow> d | Some s \<Rightarrow> if s \<noteq> [] then s else d)"

definition orNull :: "string option \<Rightarrow> string option" where
  "orNull v = (if truthy v then v else None)"

definition endsWith :: "string \<Rightarrow> string \<Rightarrow> bool" where
  "endsWith key suffix =
     (length suffix \<le> length key \<and> drop (length key - length suffix) key = suffix)"

subsection \<open>Module constants, module state and environment\<close>

definition BASE_PATCH_URL :: string where
  "BASE_PATCH_URL = ''https://game-patches.hytale.com/patches''"

definition MANIFEST_API :: string where
  "MANIFEST_API = ''https://files.hytalef2p.com/api/patch_manifest''"

definition NEW_API_URL :: string where
  "NEW_API_URL = ''https://thecute.cloud/ShipOfYarn/api.php''"

definition API_CACHE_DURATION :: int where
  "API_CACHE_DURATION = 60000"

text \<open>\<^verbatim>\<open>getOS()\<close> and \<^verbatim>\<open>getArch()\<close> come from \<^verbatim>\<open>../utils/platformUtils\<close>, which is not part of
  the module: their results are parameters of the model.\<close>

record platform =
  getOS :: string
  getArch :: string

text \<open>The catalog of the primary provider: \<^verbatim>\<open>data.hytale[branch][osKey]\<close> is an object from
  file names to URLs. Objects are association lists in key order, looked up with
  \<^const>\<open>map_of\<close>; a missing or falsy member is \<^term>\<open>None\<close>.\<close>

type_synonym os_table = "(string \<times> string) list"

record api_data =
  hytale :: "(string \<times> (string \<times> os_table) list) list option"

text \<open>An HTTP response with its \<^verbatim>\<open>data\<close> member (\<^term>\<open>None\<close> when falsy).\<close>

record 'a response =
  data :: "'a option"

record version_data =
  client_version :: "string option"

text \<open>A patch manifest entry, with the field types of the data model of the specification.
  The member \<^verbatim>\<open>from\<close> is named \<open>from_build\<close> here; it is a number of the manifest, a
  non-negative integral double.\<close>

record patch_info =
  original_url :: "string option"
  patch_url :: "string option"
  patch_hash :: "string option"
  from_build :: "nat option"
  proper_patch :: bool
  patch_note :: "string option"

type_synonym manifest = "(string \<times> patch_info) list"

record manifest_data =
  patches :: "manifest option"

text \<open>The module variables \<^verbatim>\<open>apiCache\<close> and \<^verbatim>\<open>apiCacheTime\<close>, together with two logs of
  the effects of the module on its environment: the URLs requested over the network
  (by \<^verbatim>\<open>axios.get\<close>, \<^verbatim>\<open>axios.head\<close> and \<^verbatim>\<open>smartRequest\<close>) and the files opened for
  reading, oldest first.\<close>

record world =
  apiCache :: "api_data option"
  apiCacheTime :: int
  requests :: "string list"
  opened :: "string list"

text \<open>The update plan item returned by \<^verbatim>\<open>extractVersionDetails\<close>.\<close>

record version_details =
  version :: "string option"
  buildNumber :: number
  buildName :: string
  fullUrl :: string
  differentialUrl :: "string option"
  checksum :: "string option"
  sourceVersion :: "string option"
  isDifferential :: bool
  releaseNotes :: "string option"

subsection \<open>Manifest client\<close>

text \<open>The \<^verbatim>\<open>try\<close>/\<^verbatim>\<open>catch\<close> of \<^verbatim>\<open>fetchNewAPI\<close>: the request, the check of the response
  and the handler. \<open>get\<close> is the answer of \<^verbatim>\<open>axios.get\<close> at the time of the call.\<close>

definition fetchNewAPI_try ::
  "(string \<Rightarrow> error + api_data response) \<Rightarrow> int \<Rightarrow> world \<Rightarrow> (error + api_data) \<times> world" where
  "fetchNewAPI_try get now w =
     (let w1 = w\<lparr>requests := requests w @ [NEW_API_URL]\<rparr>;
          attempt =
            (case get NEW_API_URL of
               Inl error \<Rightarrow> Inl error
             | Inr response \<Rightarrow>
                 (case data response of
                    None \<Rightarrow> Inl (Error ''Invalid API response structure'')
                  | Some d \<Rightarrow>
                      if hytale d \<noteq> None then Inr d
                      else Inl (Error ''Invalid API response structure'')))
      in case attempt of
           Inr d \<Rightarrow> (Inr d, w1\<lparr>apiCache := Some d, apiCacheTime := now\<rparr>)
         | Inl error \<Rightarrow>
             (case apiCache w1 of
                Some cached \<Rightarrow> (Inr cached, w1)
              | None \<Rightarrow> (Inl error, w1)))"

text \<open>\<^verbatim>\<open>fetchNewAPI()\<close>. \<open>now\<close> is the value of \<^verbatim>\<open>Date.now()\<close>.\<close>

definition fetchNewAPI ::
  "(string \<Rightarrow> error + api_data response) \<Rightarrow> int \<Rightarrow> world \<Rightarrow> (error + api_data) \<times> world" where
  "fetchNewAPI get now w =
     (case apiCache w of
        Some cached \<Rightarrow>
          if now - apiCacheTime w < API_CACHE_DURATION then (Inr cached, w)
          else fetchNewAPI_try get now w
      | None \<Rightarrow> fetchNewAPI_try get now w)"

text \<open>\<^verbatim>\<open>getLatestVersionFromNewAPI(branch)\<close>. \<^verbatim>\<open>Math.max\<close> of the non-empty list of
  numbers is a fold of \<^const>\<open>numMax\<close> from its first element.\<close>

definition getLatestVersionFromNewAPI ::
  "(string \<Rightarrow> error + api_data response) \<Rightarrow> platform \<Rightarrow> int \<Rightarrow> string \<Rightarrow> world
     \<Rightarrow> (error + string) \<times> world" where
  "getLatestVersionFromNewAPI get plat now branch w =
     (case fetchNewAPI get now w of
        (Inl error, w1) \<Rightarrow> (Inl error, w1)
      | (Inr apiData, w1) \<Rightarrow>
          (let osName = getOS plat;
               osKey = (if osName = ''darwin'' then ''mac'' else osName)
           in case hytale apiData of
                None \<Rightarrow> (Inl (Error ''Cannot read properties of undefined''), w1)
              | Some table \<Rightarrow>
                  (case Option.bind (map_of table branch) (\<lambda>branchData. map_of branchData osKey) of
                     None \<Rightarrow>
                       (Inl (Error (''No data found for branch: '' @ branch @ '', OS: '' @ osKey)), w1)
                   | Some osData \<Rightarrow>
                       (case filter (\<lambda>key. endsWith key ''.pwr'') (map fst osData) of
                          [] \<Rightarrow> (Inl (Error (''No .pwr files found for '' @ osKey)), w1)
                        | v # vs \<Rightarrow>
                            (let versionNumber = (\<lambda>k. case match_v k of
                                                          Some m \<Rightarrow> parseInt m
                                                        | None \<Rightarrow> Finite 0);
                                 latestVersionNumber =
                                   foldl numMax (versionNumber v) (map versionNumber vs)
                             in (Inr (''v'' @ numberToString latestVersionNumber), w1))))))"

text \<open>\<^verbatim>\<open>getLatestClientVersion(branch)\<close>. \<open>smartRequest\<close> is the answer of the legacy
  version endpoint.\<close>

definition getLatestClientVersion ::
  "(string \<Rightarrow> error + api_data response) \<Rightarrow> (string \<Rightarrow> error + version_data response)
     \<Rightarrow> platform \<Rightarrow> int \<Rightarrow> string \<Rightarrow> world \<Rightarrow> (error + string) \<times> world" where
  "getLatestClientVersion get smartRequest plat now branch w =
     (case getLatestVersionFromNewAPI get plat now branch w of
        (Inr latestVersion, w1) \<Rightarrow> (Inr latestVersion, w1)
      | (Inl error, w1) \<Rightarrow>
          (let url = ''https://files.hytalef2p.com/api/version_client?branch='' @ branch;
               w2 = w1\<lparr>requests := requests w1 @ [url]\<rparr>
           in case smartRequest url of
                Inr response \<Rightarrow>
                  (case Option.bind (data response) client_version of
                     Some v \<Rightarrow> if v \<noteq> [] then (Inr v, w2) else (Inr ''v8'', w2)
                   | None \<Rightarrow> (Inr ''v8'', w2))
              | Inl fallbackError \<Rightarrow> (Inr ''v8'', w2)))"

text \<open>\<^verbatim>\<open>fetchPatchManifest(branch)\<close>: every failure, a response without \<^verbatim>\<open>data\<close> among them
  (a \<^verbatim>\<open>TypeError\<close> inside the \<^verbatim>\<open>try\<close>), yields the empty manifest.\<close>

definition fetchPatchManifest ::
  "(string \<Rightarrow> error + manifest_data response) \<Rightarrow> platform \<Rightarrow> string \<Rightarrow> world
     \<Rightarrow> manifest \<times> world" where
  "fetchPatchManifest smartRequest plat branch w =
     (let url = MANIFEST_API @ ''?branch='' @ branch @ ''&os='' @ getOS plat
                  @ ''&arch='' @ getArch plat;
          w1 = w\<lparr>requests := requests w @ [url]\<rparr>
      in case smartRequest url of
           Inr response \<Rightarrow>
             (case Option.bind (data response) patches of
                Some m \<Rightarrow> (m, w1)
              | None \<Rightarrow> ([], w1))
         | Inl error \<Rightarrow> ([], w1))"

subsection \<open>Archive locator and availability probe\<close>

definition buildArchiveUrl :: "platform \<Rightarrow> number \<Rightarrow> string \<Rightarrow> string" where
  "buildArchiveUrl plat build branch =
     BASE_PATCH_URL @ ''/'' @ getOS plat @ ''/'' @ getArch plat @ ''/'' @ branch @ ''/0/''
       @ numberToString build @ ''.pwr''"




subsection \<open>Patch planner\<close>

definition extractVersionDetails ::
  "(string \<Rightarrow> error + manifest_data response) \<Rightarrow> platform \<Rightarrow> string option \<Rightarrow> string \<Rightarrow> world
     \<Rightarrow> version_details \<times> world" where
  "extractVersionDetails smartRequest plat targetVersion branch w =
     (let build = extractVersionNumber targetVersion;
          previousBuild = numSub build (Finite 1);
          fetched = fetchPatchManifest smartRequest plat branch w;
          patchInfo = map_of (fst fetched) (numberToString build);
          previous = (if numLess (Finite 0) previousBuild
                      then Some (numberToString previousBuild @ ''.pwr'')
                      else None)
      in (\<lparr> version = targetVersion,
            buildNumber = build,
            buildName = ''HYTALE-Build-'' @ numberToString build,
            fullUrl = orElse (Option.bind patchInfo original_url)
                        (buildArchiveUrl plat build branch),
            differentialUrl = orNull (Option.bind patchInfo patch_url),
            checksum = orNull (Option.bind patchInfo patch_hash),
            sourceVersion =
              (case Option.bind patchInfo from_build of
                 Some f \<Rightarrow>
                   if f \<noteq> 0 then Some (numberToString (Finite (int f)) @ ''.pwr'')
                   else previous
               | None \<Rightarrow> previous),
            isDifferential = (case patchInfo of None \<Rightarrow> False | Some p \<Rightarrow> proper_patch p),
            releaseNotes = orNull (Option.bind patchInfo patch_note) \<rparr>,
          snd fetched))"

definition canUseDifferentialUpdate :: "string option \<Rightarrow> version_details option \<Rightarrow> bool" where
  "canUseDifferentialUpdate currentVersion targetDetails =
     (case targetDetails of
        None \<Rightarrow> False
      | Some d \<Rightarrow>
          if \<not> truthy (differentialUrl d) then False
          else if \<not> isDifferential d then False
          else if \<not> truthy currentVersion then False
          else (let currentBuild = extractVersionNumber currentVersion;
                    expectedSource = extractVersionNumber (sourceVersion d)
                in strictEquals currentBuild expectedSource))"

text \<open>The loop of \<^verbatim>\<open>needsIntermediatePatches\<close>, from its counter \<open>i\<close> on. The counter is a
  double: from \<open>2^53\<close> on \<^verbatim>\<open>i++\<close> may leave it where it is, and the loop then never ends.\<close>

partial_function (option) intermediatesLoop ::
  "number \<Rightarrow> number \<Rightarrow> string list \<Rightarrow> string list option" where
  "intermediatesLoop i target intermediates =
     (if numLe i target
      then intermediatesLoop (numAdd i (Finite 1)) target
             (intermediates @ [numberToString i @ ''.pwr''])
      else Some intermediates)"

definition needsIntermediatePatches :: "string option \<Rightarrow> string option \<Rightarrow> string list option" where
  "needsIntermediatePatches currentVersion targetVersion =
     (if \<not> truthy currentVersion then Some []
      else (let current = extractVersionNumber currentVersion;
                target = extractVersionNumber targetVersion
            in intermediatesLoop (numAdd current (Finite 1)) target []))"

subsection \<open>Integrity verifier\<close>

text \<open>\<^verbatim>\<open>computeFileChecksum(filePath)\<close>. \<open>sha256hex\<close> is the SHA-256 digest of Node's
  \<^verbatim>\<open>crypto\<close> in hexadecimal, a parameter of the model: the digest after the updates with
  the chunks of the file is the digest of their concatenation. \<open>readStream\<close> is the file
  system: the chunks a read stream delivers before it ends, or the error it emits.\<close>

definition computeFileChecksum ::
  "(string \<Rightarrow> string) \<Rightarrow> (string \<Rightarrow> error + string list) \<Rightarrow> string \<Rightarrow> world
     \<Rightarrow> (error + string) \<times> world" where
  "computeFileChecksum sha256hex readStream filePath w =
     (let w1 = w\<lparr>opened := opened w @ [filePath]\<rparr>
      in case readStream filePath of
           Inr chunks \<Rightarrow> (Inr (sha256hex (concat chunks)), w1)
         | Inl error \<Rightarrow> (Inl error, w1))"

definition validateChecksum ::
  "(string \<Rightarrow> string) \<Rightarrow> (string \<Rightarrow> error + string list) \<Rightarrow> string \<Rightarrow> string option \<Rightarrow> world
     \<Rightarrow> (error + bool) \<times> world" where
  "validateChecksum sha256hex readStream filePath expectedChecksum w =
     (if \<not> truthy expectedChecksum then (Inr True, w)
      else (case computeFileChecksum sha256hex readStream filePath w of
              (Inr actualChecksum, w1) \<Rightarrow> (Inr (Some actualChecksum = expectedChecksum), w1)
            | (Inl error, w1) \<Rightarrow> (Inl error, w1)))"

subsection \<open>Initial state and the environments of the examples\<close>

text \<open>The module starts with \<^verbatim>\<open>apiCache = null\<close> and \<^verbatim>\<open>apiCacheTime = 0\<close>, and nothing
  requested or opened.\<close>

definition initialWorld :: world where
  "initialWorld = \<lparr>apiCache = None, apiCacheTime = 0, requests = [], opened = []\<rparr>"

definition examplePlatform :: platform where
  "examplePlatform = \<lparr>getOS = ''linux'', getArch = ''amd64''\<rparr>"

text \<open>A manifest endpoint that serves the manifest \<open>m\<close>, and a manifest entry with a patch
  URL and the proper-patch mark whose \<^verbatim>\<open>from\<close> member is \<open>f\<close>.\<close>

definition manifestServer :: "manifest \<Rightarrow> string \<Rightarrow> error + manifest_data response" where
  "manifestServer m url = Inr \<lparr>data = Some \<lparr>patches = Some m\<rparr>\<rparr>"

definition deltaEntry :: "nat option \<Rightarrow> patch_info" where
  "deltaEntry f = \<lparr>original_url = None, patch_url = Some ''x'', patch_hash = None,
                   from_build = f, proper_patch = True, patch_note = None\<rparr>"

text \<open>A primary provider that serves the catalog \<open>d\<close>, a catalog with three files for
  Linux on the release branch, a legacy endpoint that answers with the version \<open>v\<close>, and an
  endpoint that refuses the connection.\<close>

definition catalogServer :: "api_data \<Rightarrow> string \<Rightarrow> error + api_data response" where
  "catalogServer d url = Inr \<lparr>data = Some d\<rparr>"

definition exampleCatalog :: api_data where
  "exampleCatalog =
     \<lparr>hytale = Some [(''release'',
                       [(''linux'', [(''v7-linux-amd64.pwr'', ''https://example.org/7''),
                                     (''v9-linux-amd64.pwr'', ''https://example.org/9''),
                                     (''notes.txt'', ''https://example.org/notes'')])])]\<rparr>"

definition legacyServer :: "string option \<Rightarrow> string \<Rightarrow> error + version_data response" where
  "legacyServer v url = Inr \<lparr>data = Some \<lparr>client_version = v\<rparr>\<rparr>"

definition unreachable :: "string \<Rightarrow> error + 'a" where
  "unreachable url = Inl (Error ''connect ECONNREFUSED'')"


definition exampleDisk :: "string \<Rightarrow> error + string list" where
  "exampleDisk filePath =
     (if filePath = ''game.pwr'' then Inr [''PWR'', ''1''] else Inl (Error ''ENOENT''))"

definition exampleDigest :: "string \<Rightarrow> string" where
  "exampleDigest content = (if content = ''PWR1'' then ''ab12'' else ''ffff'')"

section \<open>Properties of the primitives\<close>

lemma roundMagnitude_exact:
  assumes "a \<le> 2 ^ 53"
  shows "roundMagnitude a = a"
proof (cases "a < 2 ^ 53")
  case True
  then show ?thesis by (simp add: roundMagnitude_def)
next
  case False
  with assms have a: "a = 2 ^ 53" by simp
  have "bitLength 9007199254740992 = 54" by (simp add: bitLength.simps)
  then have "roundMagnitude 9007199254740992 = 9007199254740992"
    by (simp add: roundMagnitude_def Let_def)
  with a show ?thesis by simp
qed

lemma toNumber_exact:
  assumes "\<bar>x\<bar> \<le> 2 ^ 53"
  shows "toNumber x = Finite x"
proof -
  from assms have le: "nat \<bar>x\<bar> \<le> 2 ^ 53" by (simp add: nat_le_iff)
  then have r: "roundMagnitude (nat \<bar>x\<bar>) = nat \<bar>x\<bar>" by (rule roundMagnitude_exact)
  have "(2::nat) ^ 53 < 2 ^ 1024" by simp
  with le have "\<not> nat \<bar>x\<bar> \<ge> 2 ^ 1024" by linarith
  then show ?thesis unfolding toNumber_def r by simp
qed

lemma toNumber_not_NaN: "toNumber x \<noteq> NaN"
  by (simp add: toNumber_def)

lemma isDigit_cases:
  "isDigit c \<longleftrightarrow> c = CHR ''0'' \<or> c = CHR ''1'' \<or> c = CHR ''2'' \<or> c = CHR ''3'' \<or> c = CHR ''4''
     \<or> c = CHR ''5'' \<or> c = CHR ''6'' \<or> c = CHR ''7'' \<or> c = CHR ''8'' \<or> c = CHR ''9''"
  by (simp add: isDigit_def)

lemma digit_not_space: "isDigit c \<Longrightarrow> \<not> isWhiteSpace c"
  by (auto simp: isDigit_cases isWhiteSpace_def)

lemma digit_not_sign: "isDigit c \<Longrightarrow> c \<noteq> CHR ''+'' \<and> c \<noteq> CHR ''-'' \<and> c \<noteq> CHR ''x'' \<and> c \<noteq> CHR ''X'' \<and> c \<noteq> CHR ''v'' \<and> c \<noteq> CHR ''.''"
  by (auto simp: isDigit_cases)

lemma digit_radix10: "isDigit c \<Longrightarrow> isRadixDigit 10 c"
  by (auto simp: isDigit_cases isRadixDigit_def digitValue_def)

lemma lower_val: "c \<in> set ''abcdefghijklmnopqrstuvwxyz'' \<Longrightarrow> 10 \<le> (of_char c :: nat) - 87"
  by (simp, elim disjE) simp_all

lemma upper_val: "c \<in> set ''ABCDEFGHIJKLMNOPQRSTUVWXYZ'' \<Longrightarrow> 10 \<le> (of_char c :: nat) - 55"
  by (simp, elim disjE) simp_all

lemma radix10_digit: "isRadixDigit 10 c \<Longrightarrow> isDigit c"
  unfolding isRadixDigit_def digitValue_def
  using lower_val[of c] upper_val[of c] by (simp split: if_splits)

lemma takeWhile_all: "\<forall>c\<in>set ds. P c \<Longrightarrow> takeWhile P ds = ds"
  by (induction ds) auto

lemma not_hex_prefix:
  assumes "\<forall>c\<in>set ds. isDigit c"
  shows "take 2 ds \<noteq> ''0x'' \<and> take 2 ds \<noteq> ''0X''"
proof (cases ds)
  case Nil then show ?thesis by simp
next
  case (Cons a as)
  show ?thesis
  proof (cases as)
    case Nil with Cons show ?thesis by simp
  next
    case (Cons b bs)
    with \<open>ds = a # as\<close> assms have "isDigit b" by simp
    then have "b \<noteq> CHR ''x'' \<and> b \<noteq> CHR ''X''" using digit_not_sign by blast
    with Cons \<open>ds = a # as\<close> show ?thesis by simp
  qed
qed

lemma parseInt_digits:
  assumes "ds \<noteq> []" and "\<forall>c\<in>set ds. isDigit c"
  shows "parseInt ds = toNumber (int (radixValue 10 ds))"
proof -
  from assms obtain a as where ds: "ds = a # as" by (cases ds) auto
  with assms have a: "isDigit a" by simp
  have ws: "dropWhile isWhiteSpace ds = ds" using a ds digit_not_space by simp
  have sg: "hd ds \<noteq> CHR ''+'' \<and> hd ds \<noteq> CHR ''-''" using a ds digit_not_sign by simp
  have hx: "take 2 ds \<noteq> ''0x'' \<and> take 2 ds \<noteq> ''0X''" using assms(2) by (rule not_hex_prefix)
  have tw: "takeWhile (isRadixDigit 10) ds = ds"
    using assms(2) digit_radix10 by (intro takeWhile_all) blast
  show ?thesis
    unfolding parseInt_def Let_def using sg assms(1) by (simp add: ws hx tw)
qed

lemma takeWhile_digits: "\<forall>c\<in>set (takeWhile isDigit cs). isDigit c"
  by (auto dest: set_takeWhileD)

lemma match_v_capture: "match_v s = Some d \<Longrightarrow> d \<noteq> [] \<and> (\<forall>c\<in>set d. isDigit c)"
proof (induction s)
  case Nil
  then show ?case by simp
next
  case (Cons c cs)
  show ?case
  proof (cases "c = CHR ''v'' \<and> takeWhile isDigit cs \<noteq> []")
    case True
    with Cons.prems have "d = takeWhile isDigit cs" by simp
    with True show ?thesis using takeWhile_digits[of cs] by simp
  next
    case False
    with Cons.prems have "match_v cs = Some d" by (simp split: if_splits)
    then show ?thesis by (rule Cons.IH)
  qed
qed

lemma match_pwr_capture: "match_pwr s = Some d \<Longrightarrow> d \<noteq> [] \<and> (\<forall>c\<in>set d. isDigit c)"
proof (induction s)
  case Nil
  then show ?case by simp
next
  case (Cons c cs)
  show ?case
  proof (cases "isDigit c \<and> take 4 (dropWhile isDigit (c # cs)) = ''.pwr''")
    case True
    with Cons.prems have d: "d = takeWhile isDigit (c # cs)" by (simp del: takeWhile.simps dropWhile.simps)
    from True have "takeWhile isDigit (c # cs) \<noteq> []" by simp
    with d show ?thesis using takeWhile_digits[of "c # cs"] by (simp del: takeWhile.simps)
  next
    case False
    with Cons.prems have "match_pwr cs = Some d" by (simp del: takeWhile.simps dropWhile.simps split: if_splits)
    then show ?thesis by (rule Cons.IH)
  qed
qed

lemma match_v_form:
  assumes "ds \<noteq> []" "\<forall>c\<in>set ds. isDigit c" "rest = [] \<or> \<not> isDigit (hd rest)"
  shows "match_v (''v'' @ ds @ rest) = Some ds"
proof -
  have "takeWhile isDigit (ds @ rest) = ds"
    using assms(2,3) by (cases rest) (auto simp: takeWhile_all)
  with assms(1) show ?thesis by simp
qed

lemma match_v_no_v: "CHR ''v'' \<notin> set s \<Longrightarrow> match_v s = None"
  by (induction s) auto

lemma match_v_no_digit: "\<forall>c\<in>set s. \<not> isDigit c \<Longrightarrow> match_v s = None"
  by (induction s) (auto simp: takeWhile_eq_Nil_iff)

lemma match_pwr_no_digit: "\<forall>c\<in>set s. \<not> isDigit c \<Longrightarrow> match_pwr s = None"
  by (induction s) auto

lemma match_v_pwr_form:
  assumes "\<forall>c\<in>set ds. isDigit c"
  shows "match_v (ds @ ''.pwr'') = None"
proof -
  have "CHR ''v'' \<notin> set ds" using assms digit_not_sign by blast
  then show ?thesis by (intro match_v_no_v) simp
qed

lemma match_pwr_form:
  assumes "ds \<noteq> []" "\<forall>c\<in>set ds. isDigit c"
  shows "match_pwr (ds @ ''.pwr'') = Some ds"
proof -
  from assms obtain a as where ds: "ds = a # as" by (cases ds) auto
  have nd: "\<not> isDigit CHR ''.''" by (simp add: isDigit_def)
  have t: "takeWhile isDigit (ds @ ''.pwr'') = ds" using assms(2) nd by simp
  have d: "dropWhile isDigit (ds @ ''.pwr'') = ''.pwr''" using assms(2) nd by simp
  from ds assms(2) have "isDigit a" by simp
  with t d ds show ?thesis by simp
qed


lemma lt10_cases:
  "(d::nat) < 10 \<Longrightarrow> d = 0 \<or> d = 1 \<or> d = 2 \<or> d = 3 \<or> d = 4 \<or> d = 5 \<or> d = 6 \<or> d = 7 \<or> d = 8 \<or> d = 9"
  by arith

lemma isDigit_digitChar: "d < 10 \<Longrightarrow> isDigit (digitChar d)"
  using lt10_cases[of d] by (auto simp: isDigit_def digitChar_def)

lemma digitValue_digit: "isDigit c \<Longrightarrow> digitValue c = of_char c - 48"
  by (simp add: digitValue_def)

lemma digitValue_digitChar:
  assumes "d < 10"
  shows "digitValue (digitChar d) = d"
proof -
  have "(of_char (digitChar d) :: nat) - 48 = d"
    using lt10_cases[OF assms] by (auto simp: digitChar_def)
  then show ?thesis using isDigit_digitChar[OF assms] by (simp add: digitValue_digit)
qed

lemma digitsOf_nonempty: "digitsOf n \<noteq> []"
  by (subst digitsOf.simps) simp

lemma digitsOf_digits: "\<forall>c\<in>set (digitsOf n). isDigit c"
proof (induction n rule: digitsOf.induct)
  case (1 n)
  show ?case
  proof (cases "n < 10")
    case True
    then show ?thesis by (subst digitsOf.simps) (simp add: isDigit_digitChar)
  next
    case False
    with 1 have "\<forall>c\<in>set (digitsOf (n div 10)). isDigit c" by simp
    moreover have "isDigit (digitChar (n mod 10))" by (simp add: isDigit_digitChar)
    ultimately show ?thesis using False by (subst digitsOf.simps) simp
  qed
qed

lemma radixValue_snoc: "radixValue R (xs @ [c]) = R * radixValue R xs + digitValue c"
  by (simp add: radixValue_def)

lemma radixValue_digitsOf: "radixValue 10 (digitsOf n) = n"
proof (induction n rule: digitsOf.induct)
  case (1 n)
  show ?case
  proof (cases "n < 10")
    case True
    then show ?thesis by (subst digitsOf.simps) (simp add: radixValue_def digitValue_digitChar)
  next
    case False
    with 1 have "radixValue 10 (digitsOf (n div 10)) = n div 10" by simp
    then show ?thesis using False
      by (subst digitsOf.simps) (simp add: radixValue_snoc digitValue_digitChar)
  qed
qed

lemma parseInt_digitsOf: "parseInt (digitsOf n) = toNumber (int n)"
  using parseInt_digits[OF digitsOf_nonempty digitsOf_digits, of n] by (simp add: radixValue_digitsOf)

lemma extractVersionNumber_null: "extractVersionNumber None = Finite 0"
  by (simp add: extractVersionNumber_def)

lemma extractVersionNumber_empty: "extractVersionNumber (Some []) = Finite 0"
  by (simp add: extractVersionNumber_def)

lemma extractVersionNumber_first:
  assumes "match_v s = Some d"
  shows "extractVersionNumber (Some s) = toNumber (int (radixValue 10 d))"
proof -
  from assms have "s \<noteq> []" by auto
  moreover from assms have "parseInt d = toNumber (int (radixValue 10 d))"
    using match_v_capture parseInt_digits by blast
  ultimately show ?thesis using assms by (simp add: extractVersionNumber_def)
qed

lemma extractVersionNumber_second:
  assumes "match_v s = None" "match_pwr s = Some d"
  shows "extractVersionNumber (Some s) = toNumber (int (radixValue 10 d))"
proof -
  from assms have "s \<noteq> []" by auto
  moreover from assms have "parseInt d = toNumber (int (radixValue 10 d))"
    using match_pwr_capture parseInt_digits by blast
  ultimately show ?thesis using assms by (simp add: extractVersionNumber_def)
qed

lemma extractVersionNumber_third:
  assumes "match_v s = None" "match_pwr s = None"
  shows "extractVersionNumber (Some s) = (if parseInt s = NaN then Finite 0 else parseInt s)"
proof (cases "s = []")
  case True
  then show ?thesis by (simp add: extractVersionNumber_def parseInt_def)
next
  case False
  with assms show ?thesis by (simp add: extractVersionNumber_def isNaN_def Let_def)
qed

lemma extractVersionNumber_v:
  assumes "ds \<noteq> []" "\<forall>c\<in>set ds. isDigit c" "rest = [] \<or> \<not> isDigit (hd rest)"
  shows "extractVersionNumber (Some (''v'' @ ds @ rest)) = toNumber (int (radixValue 10 ds))"
  using match_v_form[OF assms] by (rule extractVersionNumber_first)

lemma extractVersionNumber_pwr:
  assumes "ds \<noteq> []" "\<forall>c\<in>set ds. isDigit c"
  shows "extractVersionNumber (Some (ds @ ''.pwr'')) = toNumber (int (radixValue 10 ds))"
  using match_v_pwr_form[OF assms(2)] match_pwr_form[OF assms] by (rule extractVersionNumber_second)

lemma extractVersionNumber_bare:
  assumes "ds \<noteq> []" "\<forall>c\<in>set ds. isDigit c"
  shows "extractVersionNumber (Some ds) = toNumber (int (radixValue 10 ds))"
proof -
  have nv: "CHR ''v'' \<notin> set ds" using assms(2) digit_not_sign by blast
  show ?thesis
  proof (cases "match_pwr ds")
    case None
    with nv show ?thesis
      using extractVersionNumber_third[of ds] parseInt_digits[OF assms] match_v_no_v[of ds]
      by (simp add: toNumber_not_NaN)
  next
    case (Some d)
    have "match_pwr ds = None"
      using assms(2)
    proof (induction ds)
      case Nil
      then show ?case by simp
    next
      case (Cons a as)
      then have "dropWhile isDigit (a # as) = []" by simp
      then have "take 4 (dropWhile isDigit (a # as)) \<noteq> ''.pwr''" by simp
      with Cons show ?case by (simp del: dropWhile.simps)
    qed
    with Some show ?thesis by simp
  qed
qed

lemma numberToString_nat: "n < 2 ^ 53 \<Longrightarrow> numberToString (Finite (int n)) = digitsOf n"
  by (simp add: numberToString_def magnitudeToString_def)

lemma extractVersionNumber_file:
  assumes "n < 2 ^ 53"
  shows "extractVersionNumber (Some (numberToString (Finite (int n)) @ ''.pwr'')) = Finite (int n)"
  using extractVersionNumber_pwr[OF digitsOf_nonempty digitsOf_digits, of n] assms
  by (simp add: numberToString_nat radixValue_digitsOf toNumber_exact)

lemma extractVersionNumber_vn:
  assumes "rest = [] \<or> \<not> isDigit (hd rest)" "n < 2 ^ 53"
  shows "extractVersionNumber (Some (''v'' @ numberToString (Finite (int n)) @ rest)) = Finite (int n)"
  using extractVersionNumber_v[OF digitsOf_nonempty digitsOf_digits assms(1), of n] assms(2)
  by (simp add: numberToString_nat radixValue_digitsOf toNumber_exact)

lemma parseInt_no_digit:
  assumes "\<forall>c\<in>set s. \<not> isDigit c"
  shows "parseInt s = NaN"
proof -
  define S where "S = dropWhile isWhiteSpace s"
  define S1 where "S1 = (if S \<noteq> [] \<and> (hd S = CHR ''+'' \<or> hd S = CHR ''-'') then tl S else S)"
  have "set S \<subseteq> set s" unfolding S_def by (simp add: set_dropWhileD subsetI)
  moreover have "set S1 \<subseteq> set S" unfolding S1_def by (auto dest: list.set_sel(2))
  ultimately have s1: "\<forall>c\<in>set S1. \<not> isDigit c" using assms by blast
  have nohex: "take 2 S1 \<noteq> ''0x'' \<and> take 2 S1 \<noteq> ''0X''"
  proof (cases S1)
    case Nil
    then show ?thesis by simp
  next
    case (Cons a as)
    with s1 have "\<not> isDigit a" by simp
    then have "a \<noteq> CHR ''0''" by (auto simp: isDigit_def)
    with Cons show ?thesis by (cases as) auto
  qed
  have "takeWhile (isRadixDigit 10) S1 = []"
  proof (cases S1)
    case Nil
    then show ?thesis by simp
  next
    case (Cons a as)
    with s1 have "\<not> isDigit a" by simp
    then have "\<not> isRadixDigit 10 a" using radix10_digit by blast
    with Cons show ?thesis by simp
  qed
  with nohex show ?thesis
    unfolding parseInt_def Let_def S_def[symmetric] S1_def[symmetric] by simp
qed

lemma extractVersionNumber_no_digit:
  assumes "\<forall>c\<in>set s. \<not> isDigit c"
  shows "extractVersionNumber (Some s) = Finite 0"
  using extractVersionNumber_third[OF match_v_no_digit[OF assms] match_pwr_no_digit[OF assms]]
    parseInt_no_digit[OF assms] by simp

lemma extractVersionNumber_not_NaN: "extractVersionNumber v \<noteq> NaN"
proof (cases v)
  case None
  then show ?thesis by (simp add: extractVersionNumber_null)
next
  case (Some s)
  show ?thesis
  proof (cases "match_v s")
    case (Some d)
    then show ?thesis
      using extractVersionNumber_first[of s d] \<open>v = Some s\<close> by (simp add: toNumber_not_NaN)
  next
    case None
    show ?thesis
    proof (cases "match_pwr s")
      case (Some d)
      with None show ?thesis
        using extractVersionNumber_second[of s d] \<open>v = Some s\<close> by (simp add: toNumber_not_NaN)
    next
      case n2: None
      with None show ?thesis
        using extractVersionNumber_third[of s] \<open>v = Some s\<close> by simp
    qed
  qed
qed

section \<open>Numbers beyond the safe integers\<close>

text \<open>At \<open>2^53\<close> the counter of \<^verbatim>\<open>needsIntermediatePatches\<close> does not move: the loop does
  not return.\<close>

lemma toNumber_above_safe: "toNumber 9007199254740993 = Finite 9007199254740992"
proof -
  have "bitLength 9007199254740993 = 54" by (simp add: bitLength.simps)
  then show ?thesis by (simp add: toNumber_def roundMagnitude_def Let_def)
qed

lemma intermediatesLoop_stuck_aux:
  assumes "intermediatesLoop i target acc = Some y"
  shows "\<not> (i = Finite 9007199254740992 \<and> target = Finite 9007199254740992)"
proof -
  have step: "\<not> (j = Finite 9007199254740992 \<and> t = Finite 9007199254740992)"
    if IH: "\<And>j t a z. f j t a = Some z
              \<Longrightarrow> \<not> (j = Finite 9007199254740992 \<and> t = Finite 9007199254740992)"
      and body: "(if numLe j t then f (numAdd j (Finite 1)) t (a @ [numberToString j @ ''.pwr''])
                  else Some a) = Some z"
    for f :: "number \<Rightarrow> number \<Rightarrow> string list \<Rightarrow> string list option" and j t a z
  proof
    assume a: "j = Finite 9007199254740992 \<and> t = Finite 9007199254740992"
    with body have "f (Finite 9007199254740992) (Finite 9007199254740992)
        (a @ [numberToString (Finite 9007199254740992) @ ''.pwr'']) = Some z"
      by (simp add: toNumber_above_safe)
    from IH[OF this] show False by simp
  qed
  show ?thesis
    by (rule intermediatesLoop.raw_induct
          [where P = "\<lambda>j t a z. \<not> (j = Finite 9007199254740992 \<and> t = Finite 9007199254740992)",
           OF step assms])
qed

lemma intermediatesLoop_stuck:
  "intermediatesLoop (Finite 9007199254740992) (Finite 9007199254740992) acc = None"
  using intermediatesLoop_stuck_aux[of "Finite 9007199254740992" "Finite 9007199254740992" acc]
  by (cases "intermediatesLoop (Finite 9007199254740992) (Finite 9007199254740992) acc") auto


lemma toNumber_two_54: "toNumber 18014398509481984 = Finite 18014398509481984"
proof -
  have "bitLength 18014398509481984 = 55" by (simp add: bitLength.simps)
  then show ?thesis by (simp add: toNumber_def roundMagnitude_def Let_def)
qed


lemma extractVersionNumber_large:
  "extractVersionNumber (Some ''v9007199254740991'') = Finite 9007199254740991"
  "extractVersionNumber (Some ''v9007199254740992'') = Finite 9007199254740992"
  "extractVersionNumber (Some ''v18014398509481984'') = Finite 18014398509481984"
proof -
  have d: "\<forall>c\<in>set ''9007199254740991''. isDigit c" "\<forall>c\<in>set ''9007199254740992''. isDigit c"
    "\<forall>c\<in>set ''18014398509481984''. isDigit c"
    by (simp_all add: isDigit_def)
  have v: "radixValue 10 ''9007199254740991'' = 9007199254740991"
    "radixValue 10 ''9007199254740992'' = 9007199254740992"
    "radixValue 10 ''18014398509481984'' = 18014398509481984"
    by (simp_all add: radixValue_def digitValue_def isDigit_def)
  have "extractVersionNumber (Some (''v'' @ ''9007199254740991'' @ []))
          = toNumber (int (radixValue 10 ''9007199254740991''))"
    using d(1) by (intro extractVersionNumber_v) simp_all
  then show "extractVersionNumber (Some ''v9007199254740991'') = Finite 9007199254740991"
    by (simp add: v toNumber_exact)
  have "extractVersionNumber (Some (''v'' @ ''9007199254740992'' @ []))
          = toNumber (int (radixValue 10 ''9007199254740992''))"
    using d(2) by (intro extractVersionNumber_v) simp_all
  then show "extractVersionNumber (Some ''v9007199254740992'') = Finite 9007199254740992"
    by (simp add: v toNumber_exact)
  have "extractVersionNumber (Some (''v'' @ ''18014398509481984'' @ []))
          = toNumber (int (radixValue 10 ''18014398509481984''))"
    using d(3) by (intro extractVersionNumber_v) simp_all
  then show "extractVersionNumber (Some ''v18014398509481984'') = Finite 18014398509481984"
    by (simp add: v toNumber_two_54)
qed



section \<open>Evaluation on small inputs and properties of the operations\<close>

lemma digitsOf_small:
  "digitsOf 0 = ''0''" "digitsOf 1 = ''1''" "digitsOf 4 = ''4''" "digitsOf 5 = ''5''"
  "digitsOf 6 = ''6''" "digitsOf 7 = ''7''" "digitsOf 8 = ''8''" "digitsOf 9 = ''9''"
  "digitsOf 10 = ''10''" "digitsOf (Suc 0) = ''1''"
  by code_simp+

lemma numberToString_small:
  "numberToString (Finite 5) = ''5''" "numberToString (Finite 6) = ''6''"
  "numberToString (Finite 7) = ''7''" "numberToString (Finite 8) = ''8''"
  "numberToString (Finite 9) = ''9''" "numberToString (Finite 10) = ''10''"
  "numberToString (Finite 1) = ''1''" "numberToString (Finite 0) = ''0''"
  "numberToString (Finite 4) = ''4''"
  by (simp_all add: numberToString_def magnitudeToString_def digitsOf_small)

lemmas evaluation = extractVersionNumber_def isDigit_def parseInt_def isWhiteSpace_def
  isRadixDigit_def digitValue_def radixValue_def isNaN_def Let_def toNumber_exact

lemma extractVersionNumber_small:
  "extractVersionNumber (Some ''v4'') = Finite 4" "extractVersionNumber (Some ''v5'') = Finite 5"
  "extractVersionNumber (Some ''v7'') = Finite 7" "extractVersionNumber (Some ''v8'') = Finite 8"
  "extractVersionNumber (Some ''v10'') = Finite 10"
  "extractVersionNumber (Some ''5.pwr'') = Finite 5"
  "extractVersionNumber (Some ''v1'') = Finite 1" "extractVersionNumber (Some ''v6'') = Finite 6"
  "extractVersionNumber (Some ''7.pwr'') = Finite 7"
  "extractVersionNumber (Some ''10.pwr'') = Finite 10"
  by (simp_all add: evaluation)



lemma deltaEntry_fields:
  "patch_url (deltaEntry f) = Some ''x''" "proper_patch (deltaEntry f)"
  "from_build (deltaEntry f) = f" "original_url (deltaEntry f) = None"
  "patch_hash (deltaEntry f) = None"
  by (simp_all add: deltaEntry_def)

lemma fetchPatchManifest_manifestServer:
  "fst (fetchPatchManifest (manifestServer m) plat branch w) = m"
  by (simp add: fetchPatchManifest_def manifestServer_def Let_def)

lemma primary_example:
  "fst (getLatestVersionFromNewAPI (catalogServer exampleCatalog) examplePlatform 100000
          ''release'' initialWorld) = Inr ''v9''"
  by (simp add: getLatestVersionFromNewAPI_def fetchNewAPI_def fetchNewAPI_try_def initialWorld_def
      catalogServer_def exampleCatalog_def examplePlatform_def endsWith_def numMax_def
      evaluation numberToString_small)

lemma primary_down:
  "fst (getLatestVersionFromNewAPI unreachable examplePlatform 100000 ''release'' initialWorld)
     = Inl (Error ''connect ECONNREFUSED'')"
  by (simp add: getLatestVersionFromNewAPI_def fetchNewAPI_def fetchNewAPI_try_def initialWorld_def
      unreachable_def Let_def)

lemma truthy_iff: "truthy v \<longleftrightarrow> v \<noteq> None \<and> v \<noteq> Some []"
  by (cases v) (simp_all add: truthy_def)

lemma toNumber_nonpositive:
  assumes "x \<le> 0"
  shows "toNumber x = NegInfinity \<or> (\<exists>y\<le>0. toNumber x = Finite y)"
proof (cases "x = 0")
  case True
  then show ?thesis by (simp add: toNumber_exact)
next
  case False
  with assms have "x < 0" by simp
  then show ?thesis by (simp add: toNumber_def)
qed

lemma minus_one_exact:
  assumes "1 \<le> i" "i \<le> 2 ^ 53"
  shows "numSub (Finite i) (Finite 1) = Finite (i - 1)"
  using assms by (simp add: numSub_def toNumber_exact)

lemma plus_one_exact:
  assumes "- (2 ^ 53) \<le> i" "i < 2 ^ 53"
  shows "numAdd (Finite i) (Finite 1) = Finite (i + 1)"
  using assms by (simp add: toNumber_exact)

text \<open>The source name of the predecessor of a build up to \<open>2^53\<close>.\<close>

lemma previous_positive:
  assumes "b \<le> 2 ^ 53"
  shows "numLess (Finite 0) (numSub (Finite b) (Finite 1)) \<longleftrightarrow> 0 < b - 1"
    and "0 < b - 1 \<Longrightarrow> numSub (Finite b) (Finite 1) = Finite (b - 1)"
proof -
  show "0 < b - 1 \<Longrightarrow> numSub (Finite b) (Finite 1) = Finite (b - 1)"
    using assms by (intro minus_one_exact) simp_all
  show "numLess (Finite 0) (numSub (Finite b) (Finite 1)) \<longleftrightarrow> 0 < b - 1"
  proof (cases "0 < b - 1")
    case True
    then have "numSub (Finite b) (Finite 1) = Finite (b - 1)"
      using assms by (intro minus_one_exact) simp_all
    with True show ?thesis by (simp add: numLess_def)
  next
    case False
    then have "b - 1 \<le> 0" by simp
    from toNumber_nonpositive[OF this] False show ?thesis
      by (auto simp: numSub_def numLess_def)
  qed
qed

lemma numLess_Finite: "numLess (Finite a) (Finite b) \<longleftrightarrow> a < b"
  by (auto simp: numLess_def)

lemmas previous = minus_one_exact previous_positive(1) numLess_Finite

lemma extractVersionNumber_pwrName:
  assumes "0 \<le> i" "i < 2 ^ 53"
  shows "extractVersionNumber (Some (numberToString (Finite i) @ ''.pwr'')) = Finite i"
proof -
  from assms have "nat i < 2 ^ 53" by (simp add: nat_less_iff)
  from extractVersionNumber_file[OF this] assms(1) show ?thesis by simp
qed

text \<open>The fields of the plan item in terms of the manifest entry of the target build.\<close>

lemma extractVersionDetails_fields:
  assumes "patchInfo = map_of (fst (fetchPatchManifest smartRequest plat branch w))
                         (numberToString (extractVersionNumber targetVersion))"
  shows "fullUrl (fst (extractVersionDetails smartRequest plat targetVersion branch w)) =
           orElse (Option.bind patchInfo original_url)
             (buildArchiveUrl plat (extractVersionNumber targetVersion) branch)"
    and "differentialUrl (fst (extractVersionDetails smartRequest plat targetVersion branch w)) =
           orNull (Option.bind patchInfo patch_url)"
    and "checksum (fst (extractVersionDetails smartRequest plat targetVersion branch w)) =
           orNull (Option.bind patchInfo patch_hash)"
    and "isDifferential (fst (extractVersionDetails smartRequest plat targetVersion branch w)) =
           (case patchInfo of None \<Rightarrow> False | Some p \<Rightarrow> proper_patch p)"
    and "sourceVersion (fst (extractVersionDetails smartRequest plat targetVersion branch w)) =
           (case Option.bind patchInfo from_build of
              Some f \<Rightarrow>
                if f \<noteq> 0 then Some (numberToString (Finite (int f)) @ ''.pwr'')
                else if numLess (Finite 0) (numSub (extractVersionNumber targetVersion) (Finite 1))
                  then Some (numberToString (numSub (extractVersionNumber targetVersion) (Finite 1))
                             @ ''.pwr'')
                  else None
            | None \<Rightarrow>
                if numLess (Finite 0) (numSub (extractVersionNumber targetVersion) (Finite 1))
                then Some (numberToString (numSub (extractVersionNumber targetVersion) (Finite 1))
                           @ ''.pwr'')
                else None)"
  using assms by (simp_all add: extractVersionDetails_def Let_def)

lemma canUseDifferentialUpdate_iff:
  "canUseDifferentialUpdate currentVersion targetDetails \<longleftrightarrow>
     (\<exists>d. targetDetails = Some d \<and> truthy (differentialUrl d) \<and> isDifferential d
        \<and> truthy currentVersion
        \<and> extractVersionNumber currentVersion = extractVersionNumber (sourceVersion d))"
  by (cases targetDetails)
    (simp_all add: canUseDifferentialUpdate_def Let_def strictEquals_def extractVersionNumber_not_NaN)


lemma fetchNewAPI_try_requests:
  "requests (snd (fetchNewAPI_try get now w)) = requests w @ [NEW_API_URL]"
  by (simp add: fetchNewAPI_try_def Let_def split: sum.splits option.splits)

lemma fetchNewAPI_try_success:
  assumes "get NEW_API_URL = Inr r" "data r = Some d" "hytale d \<noteq> None"
  shows "fetchNewAPI_try get now w =
           (Inr d, w\<lparr>requests := requests w @ [NEW_API_URL], apiCache := Some d, apiCacheTime := now\<rparr>)"
  using assms by (simp add: fetchNewAPI_try_def Let_def)

lemma fetchNewAPI_try_failure:
  assumes "get NEW_API_URL = Inl e
           \<or> (\<exists>r. get NEW_API_URL = Inr r
                  \<and> (data r = None \<or> (\<exists>d. data r = Some d \<and> hytale d = None)))"
  shows "fetchNewAPI_try get now w =
           (case apiCache w of
              Some cached \<Rightarrow> Inr cached
            | None \<Rightarrow> Inl (case get NEW_API_URL of Inl e \<Rightarrow> e
                             | Inr r \<Rightarrow> Error ''Invalid API response structure''),
            w\<lparr>requests := requests w @ [NEW_API_URL]\<rparr>)"
  using assms by (auto simp: fetchNewAPI_try_def Let_def split: sum.splits option.splits)

lemma getLatestClientVersion_primary:
  assumes "fst (getLatestVersionFromNewAPI get plat now branch w) = Inr v"
  shows "getLatestClientVersion get smartRequest plat now branch w =
           (Inr v, snd (getLatestVersionFromNewAPI get plat now branch w))"
  using assms by (cases "getLatestVersionFromNewAPI get plat now branch w")
    (simp add: getLatestClientVersion_def)

lemma getLatestClientVersion_fallback:
  assumes "fst (getLatestVersionFromNewAPI get plat now branch w) = Inl e"
  shows "fst (getLatestClientVersion get smartRequest plat now branch w) =
           (case smartRequest (''https://files.hytalef2p.com/api/version_client?branch='' @ branch) of
              Inr response \<Rightarrow>
                (case Option.bind (data response) client_version of
                   Some v \<Rightarrow> if v \<noteq> [] then Inr v else Inr ''v8''
                 | None \<Rightarrow> Inr ''v8'')
            | Inl fallbackError \<Rightarrow> Inr ''v8'')"
  using assms by (cases "getLatestVersionFromNewAPI get plat now branch w")
    (simp add: getLatestClientVersion_def Let_def split: sum.splits option.splits)




section \<open>The claims\<close>

subsection \<open>Applicability of a differential update\<close>

text \<open>
  Claim C1. \<^verbatim>\<open>canUseDifferentialUpdate(currentVersion, targetDetails)\<close> is true exactly when
  the plan item is present, its \<^verbatim>\<open>differentialUrl\<close> is present, its \<^verbatim>\<open>isDifferential\<close> is
  true, the current version is present and the parsed current build equals the parsed
  source build of the plan item. A string-or-null is present when it passes the guard
  \<^verbatim>\<open>!x\<close> of the source: it is neither \<^verbatim>\<open>null\<close> nor the empty string. For the plan item of
  a target whose manifest entry has \<^verbatim>\<open>from\<close> 5, a patch URL and the proper-patch mark, the
  result is true for the current version \<^verbatim>\<open>v5\<close> and false for \<^verbatim>\<open>v4\<close>.
\<close>

theorem canUseDifferentialUpdate_guards:
  "(canUseDifferentialUpdate currentVersion targetDetails \<longleftrightarrow>
      (\<exists>d. targetDetails = Some d
         \<and> differentialUrl d \<noteq> None \<and> differentialUrl d \<noteq> Some []
         \<and> isDifferential d
         \<and> currentVersion \<noteq> None \<and> currentVersion \<noteq> Some []
         \<and> extractVersionNumber currentVersion = extractVersionNumber (sourceVersion d)))
   \<and> canUseDifferentialUpdate (Some ''v5'')
        (Some (fst (extractVersionDetails (manifestServer [(''6'', deltaEntry (Some 5))])
                      plat (Some ''v6'') branch w)))
   \<and> \<not> canUseDifferentialUpdate (Some ''v4'')
        (Some (fst (extractVersionDetails (manifestServer [(''6'', deltaEntry (Some 5))])
                      plat (Some ''v6'') branch w)))"
proof -
  let ?d = "fst (extractVersionDetails (manifestServer [(''6'', deltaEntry (Some 5))])
                      plat (Some ''v6'') branch w)"
  have p: "Some (deltaEntry (Some 5)) =
             map_of (fst (fetchPatchManifest (manifestServer [(''6'', deltaEntry (Some 5))]) plat branch w))
               (numberToString (extractVersionNumber (Some ''v6'')))"
    by (simp add: fetchPatchManifest_manifestServer extractVersionNumber_small numberToString_small)
  have du: "differentialUrl ?d = Some ''x''"
    by (simp add: extractVersionDetails_fields(2)[OF p] deltaEntry_fields orNull_def truthy_def)
  have idf: "isDifferential ?d"
    by (simp add: extractVersionDetails_fields(4)[OF p] deltaEntry_fields)
  have sv: "sourceVersion ?d = Some ''5.pwr''"
    by (simp add: extractVersionDetails_fields(5)[OF p] deltaEntry_fields numberToString_small)
  have yes: "canUseDifferentialUpdate (Some ''v5'') (Some ?d)"
    by (simp add: canUseDifferentialUpdate_iff du idf sv truthy_def extractVersionNumber_small)
  have no: "\<not> canUseDifferentialUpdate (Some ''v4'') (Some ?d)"
    by (simp add: canUseDifferentialUpdate_iff du idf sv truthy_def extractVersionNumber_small)
  show ?thesis
    using yes no by (simp add: canUseDifferentialUpdate_iff truthy_iff)
qed

theorem canUseDifferentialUpdate_guards_witness:
  "\<not> canUseDifferentialUpdate (Some ''v5'') None
   \<and> \<not> canUseDifferentialUpdate None
        (Some \<lparr>version = Some ''v6'', buildNumber = Finite 6, buildName = ''HYTALE-Build-6'',
               fullUrl = ''u'', differentialUrl = Some ''x'', checksum = None,
               sourceVersion = Some ''5.pwr'', isDifferential = True, releaseNotes = None\<rparr>)
   \<and> \<not> canUseDifferentialUpdate (Some ''v5'')
        (Some \<lparr>version = Some ''v6'', buildNumber = Finite 6, buildName = ''HYTALE-Build-6'',
               fullUrl = ''u'', differentialUrl = None, checksum = None,
               sourceVersion = Some ''5.pwr'', isDifferential = True, releaseNotes = None\<rparr>)
   \<and> \<not> canUseDifferentialUpdate (Some ''v5'')
        (Some \<lparr>version = Some ''v6'', buildNumber = Finite 6, buildName = ''HYTALE-Build-6'',
               fullUrl = ''u'', differentialUrl = Some ''x'', checksum = None,
               sourceVersion = Some ''5.pwr'', isDifferential = False, releaseNotes = None\<rparr>)
   \<and> canUseDifferentialUpdate (Some ''v5'')
        (Some \<lparr>version = Some ''v6'', buildNumber = Finite 6, buildName = ''HYTALE-Build-6'',
               fullUrl = ''u'', differentialUrl = Some ''x'', checksum = None,
               sourceVersion = Some ''5.pwr'', isDifferential = True, releaseNotes = None\<rparr>)"
  using canUseDifferentialUpdate_guards[of "Some ''v5''" None]
    canUseDifferentialUpdate_guards[of None "Some \<lparr>version = Some ''v6'', buildNumber = Finite 6, buildName = ''HYTALE-Build-6'',
               fullUrl = ''u'', differentialUrl = Some ''x'', checksum = None,
               sourceVersion = Some ''5.pwr'', isDifferential = True, releaseNotes = None\<rparr>"]
    canUseDifferentialUpdate_guards[of "Some ''v5''" "Some \<lparr>version = Some ''v6'', buildNumber = Finite 6, buildName = ''HYTALE-Build-6'',
               fullUrl = ''u'', differentialUrl = None, checksum = None,
               sourceVersion = Some ''5.pwr'', isDifferential = True, releaseNotes = None\<rparr>"]
    canUseDifferentialUpdate_guards[of "Some ''v5''" "Some \<lparr>version = Some ''v6'', buildNumber = Finite 6, buildName = ''HYTALE-Build-6'',
               fullUrl = ''u'', differentialUrl = Some ''x'', checksum = None,
               sourceVersion = Some ''5.pwr'', isDifferential = False, releaseNotes = None\<rparr>"]
    canUseDifferentialUpdate_guards[of "Some ''v5''" "Some \<lparr>version = Some ''v6'', buildNumber = Finite 6, buildName = ''HYTALE-Build-6'',
               fullUrl = ''u'', differentialUrl = Some ''x'', checksum = None,
               sourceVersion = Some ''5.pwr'', isDifferential = True, releaseNotes = None\<rparr>"]
  by (simp add: extractVersionNumber_small)

text \<open>
  The manifest entry of build 8 below declares no source build, has a patch URL and is
  marked a proper patch. With \<^verbatim>\<open>v7\<close> installed, the delta of the plan item for \<^verbatim>\<open>v8\<close> is
  judged applicable: without a declared source the plan item takes the predecessor of the
  target as its source.
\<close>

theorem delta_without_from_counterexample:
  "from_build (deltaEntry None) = None
   \<and> canUseDifferentialUpdate (Some ''v7'')
        (Some (fst (extractVersionDetails (manifestServer [(''8'', deltaEntry None)])
                      examplePlatform (Some ''v8'') ''release'' initialWorld)))"
proof -
  let ?d = "fst (extractVersionDetails (manifestServer [(''8'', deltaEntry None)])
                      examplePlatform (Some ''v8'') ''release'' initialWorld)"
  have p: "Some (deltaEntry None) =
             map_of (fst (fetchPatchManifest (manifestServer [(''8'', deltaEntry None)])
                            examplePlatform ''release'' initialWorld))
               (numberToString (extractVersionNumber (Some ''v8'')))"
    by (simp add: fetchPatchManifest_manifestServer extractVersionNumber_small numberToString_small)
  have du: "differentialUrl ?d = Some ''x''"
    by (simp add: extractVersionDetails_fields(2)[OF p] deltaEntry_fields orNull_def truthy_def)
  have idf: "isDifferential ?d"
    by (simp add: extractVersionDetails_fields(4)[OF p] deltaEntry_fields)
  have sv: "sourceVersion ?d = Some ''7.pwr''"
    by (simp add: extractVersionDetails_fields(5)[OF p] deltaEntry_fields
        extractVersionNumber_small previous numberToString_small)
  show ?thesis
    by (simp add: canUseDifferentialUpdate_iff du idf sv truthy_def extractVersionNumber_small
        deltaEntry_fields)
qed

text \<open>
  Claim C2, as the code has it. When \<^verbatim>\<open>canUseDifferentialUpdate\<close> accepts the plan item that
  \<^verbatim>\<open>extractVersionDetails\<close> builds for a target, the manifest has an entry for the target
  build whose patch URL is present and which is marked a proper patch, a current version is
  present, and the current build is the source build of the plan item: the build the entry
  declares in \<^verbatim>\<open>from\<close> when it declares one other than 0 and below \<open>2^53\<close>, and the
  predecessor of the target build (0 when the predecessor is not positive) when the entry
  declares none and the target build is at most \<open>2^53\<close>. The patch URL is needed for an
  entry to be usable as a delta; a declared source build is not.
\<close>

theorem delta_only_from_plan_source:
  assumes "canUseDifferentialUpdate currentVersion
             (Some (fst (extractVersionDetails smartRequest plat targetVersion branch w)))"
  shows "\<exists>p. map_of (fst (fetchPatchManifest smartRequest plat branch w))
                (numberToString (extractVersionNumber targetVersion)) = Some p
             \<and> patch_url p \<noteq> None \<and> patch_url p \<noteq> Some []
             \<and> proper_patch p
             \<and> currentVersion \<noteq> None \<and> currentVersion \<noteq> Some []
             \<and> (\<forall>f. from_build p = Some f \<and> f \<noteq> 0 \<and> f < 2 ^ 53
                   \<longrightarrow> extractVersionNumber currentVersion = Finite (int f))
             \<and> (\<forall>b. from_build p = None \<and> extractVersionNumber targetVersion = Finite b
                      \<and> b \<le> 2 ^ 53
                   \<longrightarrow> extractVersionNumber currentVersion = Finite (max 0 (b - 1)))"
proof -
  define patchInfo where
    "patchInfo = map_of (fst (fetchPatchManifest smartRequest plat branch w))
                   (numberToString (extractVersionNumber targetVersion))"
  let ?d = "fst (extractVersionDetails smartRequest plat targetVersion branch w)"
  note f = extractVersionDetails_fields[OF patchInfo_def]
  from assms have du: "truthy (differentialUrl ?d)" and idf: "isDifferential ?d"
    and cur: "truthy currentVersion"
    and eq: "extractVersionNumber currentVersion = extractVersionNumber (sourceVersion ?d)"
    by (simp_all add: canUseDifferentialUpdate_iff)
  from idf obtain p where p: "patchInfo = Some p" and pp: "proper_patch p"
    unfolding f(4) by (cases patchInfo) auto
  from du have pu: "truthy (patch_url p)"
    unfolding f(2) p by (simp add: orNull_def truthy_def split: if_splits)
  have declared: "extractVersionNumber currentVersion = Finite (int n)"
    if "from_build p = Some n" "n \<noteq> 0" "n < 2 ^ 53" for n
    using eq that unfolding f(5) p by (simp add: extractVersionNumber_file)
  have undeclared: "extractVersionNumber currentVersion = Finite (max 0 (b - 1))"
    if "from_build p = None" "extractVersionNumber targetVersion = Finite b" "b \<le> 2 ^ 53" for b
  proof (cases "0 < b - 1")
    case True
    with that(3) have "extractVersionNumber (Some (numberToString (Finite (b - 1)) @ ''.pwr''))
        = Finite (b - 1)"
      by (intro extractVersionNumber_pwrName) simp_all
    with eq that True show ?thesis
      unfolding f(5) p by (simp add: previous)
  next
    case False
    with eq that show ?thesis
      unfolding f(5) p by (simp add: previous extractVersionNumber_null)
  qed
  from p pp pu cur declared undeclared show ?thesis
    unfolding patchInfo_def by (auto simp: truthy_iff)
qed

theorem delta_only_from_plan_source_witness:
  "canUseDifferentialUpdate (Some ''v5'')
     (Some (fst (extractVersionDetails (manifestServer [(''6'', deltaEntry (Some 5))])
                   examplePlatform (Some ''v6'') ''release'' initialWorld)))
   \<and> (\<exists>p. map_of (fst (fetchPatchManifest (manifestServer [(''6'', deltaEntry (Some 5))])
                         examplePlatform ''release'' initialWorld)) ''6'' = Some p
          \<and> patch_url p \<noteq> None \<and> proper_patch p
          \<and> (\<forall>f. from_build p = Some f \<and> f \<noteq> 0 \<and> f < 2 ^ 53 \<longrightarrow> extractVersionNumber (Some ''v5'') = Finite (int f)))"
proof -
  let ?d = "fst (extractVersionDetails (manifestServer [(''6'', deltaEntry (Some 5))])
                      examplePlatform (Some ''v6'') ''release'' initialWorld)"
  have p: "Some (deltaEntry (Some 5)) =
             map_of (fst (fetchPatchManifest (manifestServer [(''6'', deltaEntry (Some 5))])
                            examplePlatform ''release'' initialWorld))
               (numberToString (extractVersionNumber (Some ''v6'')))"
    by (simp add: fetchPatchManifest_manifestServer extractVersionNumber_small numberToString_small)
  have du: "differentialUrl ?d = Some ''x''"
    by (simp add: extractVersionDetails_fields(2)[OF p] deltaEntry_fields orNull_def truthy_def)
  have idf: "isDifferential ?d"
    by (simp add: extractVersionDetails_fields(4)[OF p] deltaEntry_fields)
  have sv: "sourceVersion ?d = Some ''5.pwr''"
    by (simp add: extractVersionDetails_fields(5)[OF p] deltaEntry_fields numberToString_small)
  have h: "canUseDifferentialUpdate (Some ''v5'') (Some ?d)"
    by (simp add: canUseDifferentialUpdate_iff du idf sv truthy_def extractVersionNumber_small)
  show ?thesis
    using h delta_only_from_plan_source[OF h]
    by (auto simp: extractVersionNumber_small numberToString_small)
qed

subsection \<open>Version codec\<close>

text \<open>
  The version \<^verbatim>\<open>v9007199254740993\<close> has the form \<^verbatim>\<open>v<n>\<close> with \<open>n = 2^53 + 1\<close>. This \<open>n\<close>
  is not a double; \<^verbatim>\<open>parseInt\<close> yields the nearest one, and \<^verbatim>\<open>extractVersionNumber\<close>
  returns \<open>2^53\<close>.
\<close>

theorem extractVersionNumber_rounds_counterexample:
  "radixValue 10 ''9007199254740993'' = 9007199254740993
   \<and> extractVersionNumber (Some ''v9007199254740993'') = Finite 9007199254740992
   \<and> extractVersionNumber (Some ''v9007199254740993'') \<noteq> Finite 9007199254740993"
proof -
  have v: "radixValue 10 ''9007199254740993'' = 9007199254740993"
    by (simp add: radixValue_def digitValue_def isDigit_def)
  have d: "''9007199254740993'' \<noteq> [] \<and> (\<forall>c\<in>set ''9007199254740993''. isDigit c)"
    by (simp add: isDigit_def)
  have "extractVersionNumber (Some (''v'' @ ''9007199254740993'' @ []))
          = toNumber (int (radixValue 10 ''9007199254740993''))"
    using d by (intro extractVersionNumber_v) simp_all
  then show ?thesis by (simp add: v toNumber_above_safe)
qed

text \<open>
  Claim C3, as the code has it. For \<open>n\<close> up to \<open>2^53\<close>, \<^verbatim>\<open>extractVersionNumber\<close> returns
  \<open>n\<close> for every string that is \<open>v\<close>, the digits of \<open>n\<close> and a rest that does not go on
  with a digit (so for \<^verbatim>\<open>v<n>-<os>-<arch>.<ext>\<close>), for the string of the digits of \<open>n\<close>
  followed by \<^verbatim>\<open>.pwr\<close>, and for the string of the digits of \<open>n\<close> alone. A string that
  matches neither pattern and that \<^verbatim>\<open>parseInt\<close> reads as a number yields that number; every
  other input, \<^verbatim>\<open>null\<close> and the empty string among them, yields 0, and so does every string
  without a digit. The patterns are tried in this order: a match of the first decides the
  result whatever the others would give, and the second decides when the first does not
  match; the result of either is the double nearest to the number that the captured digits
  denote, whatever its size. The function has no failing branch on a string or \<^verbatim>\<open>null\<close>.
  The number that a run of digits denotes is \<^term>\<open>radixValue 10\<close> of the run, and
  \<^const>\<open>numberToString\<close> writes a number below \<open>2^53\<close> in decimal.
\<close>

theorem extractVersionNumber_patterns:
  "(ds \<noteq> [] \<and> (\<forall>c\<in>set ds. isDigit c) \<and> (rest = [] \<or> \<not> isDigit (hd rest))
      \<and> radixValue 10 ds \<le> 2 ^ 53
      \<longrightarrow> extractVersionNumber (Some (''v'' @ ds @ rest)) = Finite (int (radixValue 10 ds)))
   \<and> ((rest = [] \<or> \<not> isDigit (hd rest)) \<and> n < 2 ^ 53
      \<longrightarrow> extractVersionNumber (Some (''v'' @ numberToString (Finite (int n)) @ rest))
            = Finite (int n))
   \<and> (ds \<noteq> [] \<and> (\<forall>c\<in>set ds. isDigit c) \<and> radixValue 10 ds \<le> 2 ^ 53
      \<longrightarrow> extractVersionNumber (Some (ds @ ''.pwr'')) = Finite (int (radixValue 10 ds)))
   \<and> (n < 2 ^ 53
      \<longrightarrow> extractVersionNumber (Some (numberToString (Finite (int n)) @ ''.pwr'')) = Finite (int n))
   \<and> (ds \<noteq> [] \<and> (\<forall>c\<in>set ds. isDigit c) \<and> radixValue 10 ds \<le> 2 ^ 53
      \<longrightarrow> extractVersionNumber (Some ds) = Finite (int (radixValue 10 ds)))
   \<and> (n < 2 ^ 53 \<longrightarrow> extractVersionNumber (Some (numberToString (Finite (int n)))) = Finite (int n))
   \<and> (match_v s = None \<and> match_pwr s = None \<and> parseInt s \<noteq> NaN
      \<longrightarrow> extractVersionNumber (Some s) = parseInt s)
   \<and> (match_v s = None \<and> match_pwr s = None \<and> parseInt s = NaN
      \<longrightarrow> extractVersionNumber (Some s) = Finite 0)
   \<and> ((\<forall>c\<in>set s. \<not> isDigit c) \<longrightarrow> extractVersionNumber (Some s) = Finite 0)
   \<and> extractVersionNumber None = Finite 0
   \<and> extractVersionNumber (Some []) = Finite 0
   \<and> (match_v s = Some d \<longrightarrow> extractVersionNumber (Some s) = toNumber (int (radixValue 10 d)))
   \<and> (match_v s = None \<and> match_pwr s = Some d
      \<longrightarrow> extractVersionNumber (Some s) = toNumber (int (radixValue 10 d)))"
proof -
  have exact: "toNumber (int (radixValue 10 ds)) = Finite (int (radixValue 10 ds))"
    if "radixValue 10 ds \<le> 2 ^ 53"
    using that by (intro toNumber_exact) simp
  have vform: "ds \<noteq> [] \<and> (\<forall>c\<in>set ds. isDigit c) \<and> (rest = [] \<or> \<not> isDigit (hd rest))
      \<and> radixValue 10 ds \<le> 2 ^ 53
      \<longrightarrow> extractVersionNumber (Some (''v'' @ ds @ rest)) = Finite (int (radixValue 10 ds))"
    using extractVersionNumber_v[of ds rest] exact by simp
  have pform: "ds \<noteq> [] \<and> (\<forall>c\<in>set ds. isDigit c) \<and> radixValue 10 ds \<le> 2 ^ 53
      \<longrightarrow> extractVersionNumber (Some (ds @ ''.pwr'')) = Finite (int (radixValue 10 ds))"
    using extractVersionNumber_pwr[of ds] exact by simp
  have bform: "ds \<noteq> [] \<and> (\<forall>c\<in>set ds. isDigit c) \<and> radixValue 10 ds \<le> 2 ^ 53
      \<longrightarrow> extractVersionNumber (Some ds) = Finite (int (radixValue 10 ds))"
    using extractVersionNumber_bare[of ds] exact by simp
  have bare: "n < 2 ^ 53 \<longrightarrow> extractVersionNumber (Some (numberToString (Finite (int n)))) = Finite (int n)"
    using extractVersionNumber_bare[OF digitsOf_nonempty digitsOf_digits, of n]
    by (simp add: numberToString_nat radixValue_digitsOf toNumber_exact)
  have third: "match_v s = None \<and> match_pwr s = None \<and> parseInt s \<noteq> NaN
      \<longrightarrow> extractVersionNumber (Some s) = parseInt s"
    using extractVersionNumber_third[of s] by simp
  have nan: "match_v s = None \<and> match_pwr s = None \<and> parseInt s = NaN
      \<longrightarrow> extractVersionNumber (Some s) = Finite 0"
    using extractVersionNumber_third[of s] by simp
  show ?thesis
    using vform pform bform extractVersionNumber_vn[of rest n]
      extractVersionNumber_file[of n]
      bare third nan extractVersionNumber_no_digit[of s]
      extractVersionNumber_null extractVersionNumber_empty
      extractVersionNumber_first[of s d] extractVersionNumber_second[of s d]
    by blast
qed

theorem extractVersionNumber_patterns_witness:
  "radixValue 10 ''8'' \<le> 2 ^ 53
   \<and> extractVersionNumber (Some ''v8-windows-amd64.pwr'') = Finite 8
   \<and> extractVersionNumber (Some ''v12'') = Finite 12
   \<and> extractVersionNumber (Some ''7.pwr'') = Finite 7
   \<and> extractVersionNumber (Some ''42'') = Finite 42
   \<and> match_v ''-42abc'' = None \<and> match_pwr ''-42abc'' = None \<and> parseInt ''-42abc'' = Finite (- 42)
   \<and> extractVersionNumber (Some ''-42abc'') = Finite (- 42)
   \<and> match_v ''release'' = None \<and> match_pwr ''release'' = None \<and> parseInt ''release'' = NaN
   \<and> extractVersionNumber (Some ''release'') = Finite 0
   \<and> match_v ''12v3'' = Some ''3'' \<and> parseInt ''12v3'' = Finite 12
   \<and> extractVersionNumber (Some ''12v3'') = Finite 3
   \<and> match_v ''5-6.pwr'' = None \<and> match_pwr ''5-6.pwr'' = Some ''6''
   \<and> parseInt ''5-6.pwr'' = Finite 5
   \<and> extractVersionNumber (Some ''5-6.pwr'') = Finite 6"
proof -
  have d8: "''8'' \<noteq> [] \<and> (\<forall>c\<in>set ''8''. isDigit c)
      \<and> (''-windows-amd64.pwr'' = [] \<or> \<not> isDigit (hd ''-windows-amd64.pwr''))"
    by (simp add: isDigit_def)
  have d7: "''7'' \<noteq> [] \<and> (\<forall>c\<in>set ''7''. isDigit c)" by (simp add: isDigit_def)
  have d42: "''42'' \<noteq> [] \<and> (\<forall>c\<in>set ''42''. isDigit c)" by (simp add: isDigit_def)
  have n12: "numberToString (Finite 12) = ''12''"
  proof -
    have "digitsOf 12 = ''12''" by code_simp
    then show ?thesis by (simp add: numberToString_def magnitudeToString_def)
  qed
  have a: "match_v ''-42abc'' = None \<and> match_pwr ''-42abc'' = None
      \<and> parseInt ''-42abc'' = Finite (- 42)"
    by (simp add: evaluation)
  have b: "match_v ''release'' = None \<and> match_pwr ''release'' = None \<and> parseInt ''release'' = NaN"
    by (simp add: evaluation)
  have c: "match_v ''12v3'' = Some ''3'' \<and> parseInt ''12v3'' = Finite 12"
    by (simp add: evaluation)
  have e: "match_v ''5-6.pwr'' = None \<and> match_pwr ''5-6.pwr'' = Some ''6''
      \<and> parseInt ''5-6.pwr'' = Finite 5"
    by (simp add: evaluation)
  have v: "radixValue 10 ''8'' = 8 \<and> radixValue 10 ''7'' = 7 \<and> radixValue 10 ''42'' = 42
      \<and> radixValue 10 ''3'' = 3 \<and> radixValue 10 ''6'' = 6"
    by (simp add: radixValue_def digitValue_def isDigit_def)
  have t: "toNumber 3 = Finite 3 \<and> toNumber 6 = Finite 6" by (simp add: toNumber_exact)
  show ?thesis
    using extractVersionNumber_patterns[of "''8''" "''-windows-amd64.pwr''" 12 "''-42abc''" "''3''"]
      extractVersionNumber_patterns[of "''7''" "[]" 12 "''release''" "''3''"]
      extractVersionNumber_patterns[of "''42''" "[]" 12 "''12v3''" "''3''"]
      extractVersionNumber_patterns[of "''42''" "[]" 12 "''5-6.pwr''" "''6''"]
      d8 d7 d42 a b c e
    by (simp add: n12 v t)
qed

subsection \<open>Intermediate patches\<close>




subsection \<open>Catalog cache\<close>

text \<open>
  Claim C5. \<^verbatim>\<open>fetchNewAPI\<close> over the cache cell. While a cache exists and is younger than
  60000 ms, the call returns the cached snapshot and leaves the world as it is: nothing is
  requested. Without a cache, or once the window has elapsed, the call requests the
  provider once; on a response with the expected structure it returns the data and
  replaces the cache and its time stamp; when the request fails or the response lacks the
  structure, a prior cache is returned and stays in place with its time stamp, and without
  a prior cache the failure goes to the caller: the error of the request, or the error
  \<^verbatim>\<open>Invalid API response structure\<close>.
\<close>

theorem fetchNewAPI_cache:
  "(apiCache w = Some c \<and> now - apiCacheTime w < 60000
      \<longrightarrow> fetchNewAPI get now w = (Inr c, w))
   \<and> (apiCache w = None \<or> now - apiCacheTime w \<ge> 60000
      \<longrightarrow> requests (snd (fetchNewAPI get now w)) = requests w @ [NEW_API_URL])
   \<and> ((apiCache w = None \<or> now - apiCacheTime w \<ge> 60000)
       \<and> get NEW_API_URL = Inr r \<and> data r = Some d \<and> hytale d \<noteq> None
      \<longrightarrow> fetchNewAPI get now w =
            (Inr d, w\<lparr>requests := requests w @ [NEW_API_URL],
                       apiCache := Some d, apiCacheTime := now\<rparr>))
   \<and> (apiCache w = Some c \<and> now - apiCacheTime w \<ge> 60000
       \<and> (get NEW_API_URL = Inl e
           \<or> (get NEW_API_URL = Inr r
               \<and> (data r = None \<or> (data r = Some d \<and> hytale d = None))))
      \<longrightarrow> fetchNewAPI get now w = (Inr c, w\<lparr>requests := requests w @ [NEW_API_URL]\<rparr>))
   \<and> (apiCache w = None \<and> get NEW_API_URL = Inl e
      \<longrightarrow> fetchNewAPI get now w = (Inl e, w\<lparr>requests := requests w @ [NEW_API_URL]\<rparr>))
   \<and> (apiCache w = None \<and> get NEW_API_URL = Inr r
       \<and> (data r = None \<or> (data r = Some d \<and> hytale d = None))
      \<longrightarrow> fetchNewAPI get now w =
            (Inl (Error ''Invalid API response structure''),
             w\<lparr>requests := requests w @ [NEW_API_URL]\<rparr>))"
proof -
  have fresh: "apiCache w = Some c \<and> now - apiCacheTime w < 60000
      \<longrightarrow> fetchNewAPI get now w = (Inr c, w)"
    by (simp add: fetchNewAPI_def API_CACHE_DURATION_def)
  have expired: "fetchNewAPI get now w = fetchNewAPI_try get now w"
    if "apiCache w = None \<or> now - apiCacheTime w \<ge> 60000"
    using that by (auto simp: fetchNewAPI_def API_CACHE_DURATION_def split: option.splits)
  have req: "apiCache w = None \<or> now - apiCacheTime w \<ge> 60000
      \<longrightarrow> requests (snd (fetchNewAPI get now w)) = requests w @ [NEW_API_URL]"
    using expired by (simp add: fetchNewAPI_try_requests)
  have ok: "(apiCache w = None \<or> now - apiCacheTime w \<ge> 60000)
       \<and> get NEW_API_URL = Inr r \<and> data r = Some d \<and> hytale d \<noteq> None
      \<longrightarrow> fetchNewAPI get now w =
            (Inr d, w\<lparr>requests := requests w @ [NEW_API_URL],
                       apiCache := Some d, apiCacheTime := now\<rparr>)"
    using expired fetchNewAPI_try_success[of get r d now w] by simp
  have stale: "apiCache w = Some c \<and> now - apiCacheTime w \<ge> 60000
       \<and> (get NEW_API_URL = Inl e
           \<or> (get NEW_API_URL = Inr r
               \<and> (data r = None \<or> (data r = Some d \<and> hytale d = None))))
      \<longrightarrow> fetchNewAPI get now w = (Inr c, w\<lparr>requests := requests w @ [NEW_API_URL]\<rparr>)"
  proof
    assume a: "apiCache w = Some c \<and> now - apiCacheTime w \<ge> 60000
       \<and> (get NEW_API_URL = Inl e
           \<or> (get NEW_API_URL = Inr r
               \<and> (data r = None \<or> (data r = Some d \<and> hytale d = None))))"
    then have "get NEW_API_URL = Inl e
           \<or> (\<exists>r. get NEW_API_URL = Inr r
                  \<and> (data r = None \<or> (\<exists>d. data r = Some d \<and> hytale d = None)))" by blast
    from fetchNewAPI_try_failure[of get e now w] this a expired
    show "fetchNewAPI get now w = (Inr c, w\<lparr>requests := requests w @ [NEW_API_URL]\<rparr>)"
      by simp
  qed
  have none1: "apiCache w = None \<and> get NEW_API_URL = Inl e
      \<longrightarrow> fetchNewAPI get now w = (Inl e, w\<lparr>requests := requests w @ [NEW_API_URL]\<rparr>)"
  proof
    assume a: "apiCache w = None \<and> get NEW_API_URL = Inl e"
    then have "get NEW_API_URL = Inl e
           \<or> (\<exists>r. get NEW_API_URL = Inr r
                  \<and> (data r = None \<or> (\<exists>d. data r = Some d \<and> hytale d = None)))" by blast
    from fetchNewAPI_try_failure[of get e now w] this a expired
    show "fetchNewAPI get now w = (Inl e, w\<lparr>requests := requests w @ [NEW_API_URL]\<rparr>)"
      by simp
  qed
  have none2: "apiCache w = None \<and> get NEW_API_URL = Inr r
       \<and> (data r = None \<or> (data r = Some d \<and> hytale d = None))
      \<longrightarrow> fetchNewAPI get now w =
            (Inl (Error ''Invalid API response structure''),
             w\<lparr>requests := requests w @ [NEW_API_URL]\<rparr>)"
  proof
    assume a: "apiCache w = None \<and> get NEW_API_URL = Inr r
       \<and> (data r = None \<or> (data r = Some d \<and> hytale d = None))"
    then have "get NEW_API_URL = Inl e
           \<or> (\<exists>r. get NEW_API_URL = Inr r
                  \<and> (data r = None \<or> (\<exists>d. data r = Some d \<and> hytale d = None)))" by blast
    from fetchNewAPI_try_failure[of get e now w] this a expired
    show "fetchNewAPI get now w =
            (Inl (Error ''Invalid API response structure''),
             w\<lparr>requests := requests w @ [NEW_API_URL]\<rparr>)"
      by simp
  qed
  from fresh req ok stale none1 none2 show ?thesis by blast
qed

text \<open>A run of calls: the first fetches and caches; a call inside the window is served from
  the cache although the provider is down; a call after the window, with the provider
  still down, requests it and returns the stale cache; with no cache and the provider
  down, the call fails.\<close>

theorem fetchNewAPI_cache_witness:
  "fetchNewAPI (catalogServer exampleCatalog) 100000 initialWorld =
     (Inr exampleCatalog,
      \<lparr>apiCache = Some exampleCatalog, apiCacheTime = 100000, requests = [NEW_API_URL], opened = []\<rparr>)
   \<and> fetchNewAPI unreachable 159999
        \<lparr>apiCache = Some exampleCatalog, apiCacheTime = 100000, requests = [NEW_API_URL], opened = []\<rparr>
      = (Inr exampleCatalog,
         \<lparr>apiCache = Some exampleCatalog, apiCacheTime = 100000, requests = [NEW_API_URL], opened = []\<rparr>)
   \<and> fetchNewAPI unreachable 160000
        \<lparr>apiCache = Some exampleCatalog, apiCacheTime = 100000, requests = [NEW_API_URL], opened = []\<rparr>
      = (Inr exampleCatalog,
         \<lparr>apiCache = Some exampleCatalog, apiCacheTime = 100000,
           requests = [NEW_API_URL, NEW_API_URL], opened = []\<rparr>)
   \<and> fetchNewAPI unreachable 160000 initialWorld
      = (Inl (Error ''connect ECONNREFUSED''),
         \<lparr>apiCache = None, apiCacheTime = 0, requests = [NEW_API_URL], opened = []\<rparr>)"
proof -
  have h: "hytale exampleCatalog \<noteq> None" by (simp add: exampleCatalog_def)
  have u: "unreachable NEW_API_URL = Inl (Error ''connect ECONNREFUSED'')"
    by (simp add: unreachable_def)
  show ?thesis
    using fetchNewAPI_cache[of initialWorld exampleCatalog 100000 "catalogServer exampleCatalog"
        "\<lparr>data = Some exampleCatalog\<rparr>" exampleCatalog "Error ''connect ECONNREFUSED''"]
      fetchNewAPI_cache[of "\<lparr>apiCache = Some exampleCatalog, apiCacheTime = 100000,
           requests = [NEW_API_URL], opened = []\<rparr>" exampleCatalog 159999 unreachable
        "\<lparr>data = Some exampleCatalog\<rparr>" exampleCatalog "Error ''connect ECONNREFUSED''"]
      fetchNewAPI_cache[of "\<lparr>apiCache = Some exampleCatalog, apiCacheTime = 100000,
           requests = [NEW_API_URL], opened = []\<rparr>" exampleCatalog 160000 unreachable
        "\<lparr>data = Some exampleCatalog\<rparr>" exampleCatalog "Error ''connect ECONNREFUSED''"]
      fetchNewAPI_cache[of initialWorld exampleCatalog 160000 unreachable
        "\<lparr>data = Some exampleCatalog\<rparr>" exampleCatalog "Error ''connect ECONNREFUSED''"]
    by (simp add: initialWorld_def catalogServer_def h u)
qed

subsection \<open>Checksum validation\<close>

text \<open>
  Claim C6. \<^verbatim>\<open>validateChecksum(filePath, expectedChecksum)\<close> is true when the expected
  digest is absent (\<^verbatim>\<open>null\<close> or the empty string), whatever the file system holds, and it
  leaves the world as it is: no file is opened. With an expected digest the file is opened
  once, and the result is true exactly when the file can be read and the digest of its
  content equals the expected string, an equality of strings, character by character; it
  is false exactly when the file can be read and the digest differs, a value and not an
  error; and the call fails exactly when the read stream fails, with the error of the
  stream.
\<close>

theorem validateChecksum_verdict:
  "(expectedChecksum = None \<or> expectedChecksum = Some []
      \<longrightarrow> validateChecksum sha256hex readStream filePath expectedChecksum w = (Inr True, w))
   \<and> (expectedChecksum = Some expected \<and> expected \<noteq> []
      \<longrightarrow> (fst (validateChecksum sha256hex readStream filePath expectedChecksum w) = Inr True
             \<longleftrightarrow> (\<exists>chunks. readStream filePath = Inr chunks
                           \<and> sha256hex (concat chunks) = expected))
          \<and> (fst (validateChecksum sha256hex readStream filePath expectedChecksum w) = Inr False
             \<longleftrightarrow> (\<exists>chunks. readStream filePath = Inr chunks
                           \<and> sha256hex (concat chunks) \<noteq> expected))
          \<and> (fst (validateChecksum sha256hex readStream filePath expectedChecksum w) = Inl e
             \<longleftrightarrow> readStream filePath = Inl e)
          \<and> opened (snd (validateChecksum sha256hex readStream filePath expectedChecksum w))
            = opened w @ [filePath])
   \<and> (expectedChecksum = Some expected \<and> expected \<noteq> [] \<and> readStream filePath = Inr chunks
      \<longrightarrow> fst (validateChecksum sha256hex readStream filePath expectedChecksum w)
            = Inr (sha256hex (concat chunks) = expected))"
proof -
  have absent: "expectedChecksum = None \<or> expectedChecksum = Some []
      \<longrightarrow> validateChecksum sha256hex readStream filePath expectedChecksum w = (Inr True, w)"
    by (auto simp: validateChecksum_def truthy_def)
  have supplied: "validateChecksum sha256hex readStream filePath expectedChecksum w =
      (case readStream filePath of
         Inr chunks \<Rightarrow> Inr (sha256hex (concat chunks) = expected)
       | Inl error \<Rightarrow> Inl error,
       w\<lparr>opened := opened w @ [filePath]\<rparr>)"
    if "expectedChecksum = Some expected" "expected \<noteq> []"
    using that
    by (simp add: validateChecksum_def computeFileChecksum_def truthy_def Let_def
        split: sum.splits)
  show ?thesis
  proof (cases "expectedChecksum = Some expected \<and> expected \<noteq> []")
    case False
    with absent show ?thesis by blast
  next
    case True
    then have s: "validateChecksum sha256hex readStream filePath expectedChecksum w =
      (case readStream filePath of
         Inr chunks \<Rightarrow> Inr (sha256hex (concat chunks) = expected)
       | Inl error \<Rightarrow> Inl error,
       w\<lparr>opened := opened w @ [filePath]\<rparr>)"
      using supplied by blast
    from True show ?thesis
      unfolding s by (cases "readStream filePath") auto
  qed
qed

theorem validateChecksum_verdict_witness:
  "validateChecksum exampleDigest exampleDisk ''missing.pwr'' None initialWorld = (Inr True, initialWorld)
   \<and> exampleDisk ''game.pwr'' = Inr [''PWR'', ''1'']
   \<and> fst (validateChecksum exampleDigest exampleDisk ''game.pwr'' (Some ''ab12'') initialWorld) = Inr True
   \<and> fst (validateChecksum exampleDigest exampleDisk ''game.pwr'' (Some ''AB12'') initialWorld) = Inr False
   \<and> fst (validateChecksum exampleDigest exampleDisk ''game.pwr'' (Some ''0000'') initialWorld) = Inr False
   \<and> exampleDisk ''missing.pwr'' = Inl (Error ''ENOENT'')
   \<and> fst (validateChecksum exampleDigest exampleDisk ''missing.pwr'' (Some ''ab12'') initialWorld)
       = Inl (Error ''ENOENT'')"
  using validateChecksum_verdict[of None exampleDigest exampleDisk "''missing.pwr''" initialWorld
      "''ab12''" "Error ''ENOENT''" "[''PWR'', ''1'']"]
    validateChecksum_verdict[of "Some ''ab12''" exampleDigest exampleDisk "''game.pwr''" initialWorld
      "''ab12''" "Error ''ENOENT''" "[''PWR'', ''1'']"]
    validateChecksum_verdict[of "Some ''AB12''" exampleDigest exampleDisk "''game.pwr''" initialWorld
      "''AB12''" "Error ''ENOENT''" "[''PWR'', ''1'']"]
    validateChecksum_verdict[of "Some ''0000''" exampleDigest exampleDisk "''game.pwr''" initialWorld
      "''0000''" "Error ''ENOENT''" "[''PWR'', ''1'']"]
    validateChecksum_verdict[of "Some ''ab12''" exampleDigest exampleDisk "''missing.pwr''" initialWorld
      "''ab12''" "Error ''ENOENT''" "[''PWR'', ''1'']"]
  by (simp add: exampleDisk_def exampleDigest_def)

subsection \<open>Latest client version\<close>

text \<open>
  Claim C7. \<^verbatim>\<open>getLatestClientVersion(branch)\<close> returns a version for every behaviour of the
  two providers: it has no failing outcome. When the primary provider yields a version,
  that version is returned and the legacy endpoint is not requested; when the primary
  provider fails and the legacy endpoint answers with a non-empty \<^verbatim>\<open>client_version\<close>, that
  is returned; when the legacy endpoint fails too, or answers without data or without
  \<^verbatim>\<open>client_version\<close>, the result is \<^verbatim>\<open>v8\<close>.
\<close>

theorem getLatestClientVersion_tiers:
  "(\<exists>v. fst (getLatestClientVersion get smartRequest plat now branch w) = Inr v)
   \<and> (fst (getLatestVersionFromNewAPI get plat now branch w) = Inr latest
      \<longrightarrow> getLatestClientVersion get smartRequest plat now branch w
            = (Inr latest, snd (getLatestVersionFromNewAPI get plat now branch w)))
   \<and> (fst (getLatestVersionFromNewAPI get plat now branch w) = Inl e
       \<and> smartRequest (''https://files.hytalef2p.com/api/version_client?branch='' @ branch) = Inr r
       \<and> data r = Some d \<and> client_version d = Some v \<and> v \<noteq> []
      \<longrightarrow> fst (getLatestClientVersion get smartRequest plat now branch w) = Inr v)
   \<and> (fst (getLatestVersionFromNewAPI get plat now branch w) = Inl e
       \<and> (smartRequest (''https://files.hytalef2p.com/api/version_client?branch='' @ branch) = Inl e'
           \<or> (smartRequest (''https://files.hytalef2p.com/api/version_client?branch='' @ branch) = Inr r
               \<and> (data r = None
                   \<or> (data r = Some d \<and> (client_version d = None \<or> client_version d = Some [])))))
      \<longrightarrow> fst (getLatestClientVersion get smartRequest plat now branch w) = Inr ''v8'')"
proof -
  have total: "\<exists>v. fst (getLatestClientVersion get smartRequest plat now branch w) = Inr v"
  proof (cases "fst (getLatestVersionFromNewAPI get plat now branch w)")
    case (Inr v)
    then show ?thesis by (simp add: getLatestClientVersion_primary)
  next
    case (Inl e)
    then show ?thesis
      by (simp add: getLatestClientVersion_fallback split: sum.splits option.splits)
  qed
  have first: "fst (getLatestVersionFromNewAPI get plat now branch w) = Inr latest
      \<longrightarrow> getLatestClientVersion get smartRequest plat now branch w
            = (Inr latest, snd (getLatestVersionFromNewAPI get plat now branch w))"
    by (simp add: getLatestClientVersion_primary)
  have second: "fst (getLatestVersionFromNewAPI get plat now branch w) = Inl e
       \<and> smartRequest (''https://files.hytalef2p.com/api/version_client?branch='' @ branch) = Inr r
       \<and> data r = Some d \<and> client_version d = Some v \<and> v \<noteq> []
      \<longrightarrow> fst (getLatestClientVersion get smartRequest plat now branch w) = Inr v"
    by (simp add: getLatestClientVersion_fallback)
  have third: "fst (getLatestVersionFromNewAPI get plat now branch w) = Inl e
       \<and> (smartRequest (''https://files.hytalef2p.com/api/version_client?branch='' @ branch) = Inl e'
           \<or> (smartRequest (''https://files.hytalef2p.com/api/version_client?branch='' @ branch) = Inr r
               \<and> (data r = None
                   \<or> (data r = Some d \<and> (client_version d = None \<or> client_version d = Some [])))))
      \<longrightarrow> fst (getLatestClientVersion get smartRequest plat now branch w) = Inr ''v8''"
    by (auto simp: getLatestClientVersion_fallback)
  from total first second third show ?thesis by blast
qed

theorem getLatestClientVersion_tiers_witness:
  "fst (getLatestVersionFromNewAPI (catalogServer exampleCatalog) examplePlatform 100000
          ''release'' initialWorld) = Inr ''v9''
   \<and> fst (getLatestClientVersion (catalogServer exampleCatalog) unreachable examplePlatform 100000
            ''release'' initialWorld) = Inr ''v9''
   \<and> fst (getLatestVersionFromNewAPI unreachable examplePlatform 100000 ''release'' initialWorld)
       = Inl (Error ''connect ECONNREFUSED'')
   \<and> fst (getLatestClientVersion unreachable (legacyServer (Some ''v7'')) examplePlatform 100000
            ''release'' initialWorld) = Inr ''v7''
   \<and> fst (getLatestClientVersion unreachable (legacyServer None) examplePlatform 100000
            ''release'' initialWorld) = Inr ''v8''
   \<and> fst (getLatestClientVersion unreachable unreachable examplePlatform 100000
            ''release'' initialWorld) = Inr ''v8''"
  using primary_example primary_down
    getLatestClientVersion_tiers[of "catalogServer exampleCatalog" unreachable examplePlatform
      100000 "''release''" initialWorld "''v9''" "Error ''connect ECONNREFUSED''"
      "\<lparr>data = Some \<lparr>client_version = Some ''v7''\<rparr>\<rparr>" "\<lparr>client_version = Some ''v7''\<rparr>" "''v7''"
      "Error ''connect ECONNREFUSED''"]
    getLatestClientVersion_tiers[of unreachable "legacyServer (Some ''v7'')" examplePlatform
      100000 "''release''" initialWorld "''v9''" "Error ''connect ECONNREFUSED''"
      "\<lparr>data = Some \<lparr>client_version = Some ''v7''\<rparr>\<rparr>" "\<lparr>client_version = Some ''v7''\<rparr>" "''v7''"
      "Error ''connect ECONNREFUSED''"]
    getLatestClientVersion_tiers[of unreachable "legacyServer None" examplePlatform
      100000 "''release''" initialWorld "''v9''" "Error ''connect ECONNREFUSED''"
      "\<lparr>data = Some \<lparr>client_version = None\<rparr>\<rparr>" "\<lparr>client_version = None\<rparr>" "''v7''"
      "Error ''connect ECONNREFUSED''"]
    getLatestClientVersion_tiers[of unreachable unreachable examplePlatform
      100000 "''release''" initialWorld "''v9''" "Error ''connect ECONNREFUSED''"
      "\<lparr>data = Some \<lparr>client_version = None\<rparr>\<rparr>" "\<lparr>client_version = None\<rparr>" "''v7''"
      "Error ''connect ECONNREFUSED''"]
  by (simp add: legacyServer_def unreachable_def)

subsection \<open>Availability probe\<close>




subsection \<open>Plan item of a target\<close>

text \<open>
  For the target \<^verbatim>\<open>v1\<close> and a manifest without an entry for build 1, the source version of
  the plan item is \<^verbatim>\<open>null\<close>, and not the name \<^verbatim>\<open>0.pwr\<close> of the build before the target: the
  source names the preceding build only when that build is positive.
\<close>

theorem sourceVersion_first_build_counterexample:
  "map_of (fst (fetchPatchManifest (manifestServer []) examplePlatform ''release'' initialWorld))
     (numberToString (extractVersionNumber (Some ''v1''))) = None
   \<and> sourceVersion (fst (extractVersionDetails (manifestServer []) examplePlatform
                           (Some ''v1'') ''release'' initialWorld)) = None
   \<and> extractVersionNumber (Some ''v1'') = Finite 1
   \<and> sourceVersion (fst (extractVersionDetails (manifestServer []) examplePlatform
                           (Some ''v1'') ''release'' initialWorld))
       \<noteq> Some (numberToString (Finite (1 - 1)) @ ''.pwr'')"
proof -
  have p: "None = map_of (fst (fetchPatchManifest (manifestServer []) examplePlatform
                                 ''release'' initialWorld))
                    (numberToString (extractVersionNumber (Some ''v1'')))"
    by (simp add: fetchPatchManifest_manifestServer)
  show ?thesis
    using p by (simp add: extractVersionDetails_fields(5)[OF p] extractVersionNumber_small
        previous)
qed

text \<open>
  Claim C9, as the code has it. When the manifest has no entry for the parsed target
  build, the full-archive URL of the plan item is the URL that \<^verbatim>\<open>buildArchiveUrl\<close> gives
  for that build, \<^verbatim>\<open>differentialUrl\<close> and \<^verbatim>\<open>checksum\<close> are \<^verbatim>\<open>null\<close> and \<^verbatim>\<open>isDifferential\<close> is
  false. The source version is \<^verbatim>\<open><from>.pwr\<close> when the entry declares a \<^verbatim>\<open>from\<close> build
  other than 0 and below \<open>2^53\<close>; when there is no entry or the entry declares no \<^verbatim>\<open>from\<close>,
  and the target build \<open>b\<close> is an integer up to \<open>2^53\<close>, it is \<^verbatim>\<open><b-1>.pwr\<close> if \<open>b - 1\<close> is
  positive and \<^verbatim>\<open>null\<close> otherwise.
\<close>

theorem extractVersionDetails_fallbacks:
  "(map_of (fst (fetchPatchManifest smartRequest plat branch w))
      (numberToString (extractVersionNumber targetVersion)) = None
    \<longrightarrow> fullUrl (fst (extractVersionDetails smartRequest plat targetVersion branch w))
          = buildArchiveUrl plat (extractVersionNumber targetVersion) branch
        \<and> differentialUrl (fst (extractVersionDetails smartRequest plat targetVersion branch w)) = None
        \<and> checksum (fst (extractVersionDetails smartRequest plat targetVersion branch w)) = None
        \<and> \<not> isDifferential (fst (extractVersionDetails smartRequest plat targetVersion branch w)))
   \<and> (map_of (fst (fetchPatchManifest smartRequest plat branch w))
         (numberToString (extractVersionNumber targetVersion)) = Some p
       \<and> from_build p = Some f \<and> f \<noteq> 0 \<and> f < 2 ^ 53
    \<longrightarrow> sourceVersion (fst (extractVersionDetails smartRequest plat targetVersion branch w))
          = Some (numberToString (Finite (int f)) @ ''.pwr''))
   \<and> ((map_of (fst (fetchPatchManifest smartRequest plat branch w))
          (numberToString (extractVersionNumber targetVersion)) = None
        \<or> (map_of (fst (fetchPatchManifest smartRequest plat branch w))
              (numberToString (extractVersionNumber targetVersion)) = Some p
            \<and> from_build p = None))
       \<and> extractVersionNumber targetVersion = Finite b \<and> b \<le> 2 ^ 53
    \<longrightarrow> sourceVersion (fst (extractVersionDetails smartRequest plat targetVersion branch w))
          = (if b - 1 > 0 then Some (numberToString (Finite (b - 1)) @ ''.pwr'') else None))"
proof -
  define patchInfo where
    "patchInfo = map_of (fst (fetchPatchManifest smartRequest plat branch w))
                   (numberToString (extractVersionNumber targetVersion))"
  note f = extractVersionDetails_fields[OF patchInfo_def]
  have src: "sourceVersion (fst (extractVersionDetails smartRequest plat targetVersion branch w))
          = (if b - 1 > 0 then Some (numberToString (Finite (b - 1)) @ ''.pwr'') else None)"
    if "Option.bind patchInfo from_build = None"
      "extractVersionNumber targetVersion = Finite b" "b \<le> 2 ^ 53"
    unfolding f(5) using that by (simp add: previous)
  have "patchInfo = None \<Longrightarrow> Option.bind patchInfo from_build = None" by simp
  moreover have "patchInfo = Some p \<and> from_build p = None
      \<Longrightarrow> Option.bind patchInfo from_build = None" by simp
  ultimately show ?thesis
    using src unfolding f(1-4) patchInfo_def[symmetric]
    by (auto simp: orElse_def orNull_def truthy_def f(5))
qed

theorem extractVersionDetails_fallbacks_witness:
  "map_of (fst (fetchPatchManifest (manifestServer [(''6'', deltaEntry (Some 5))])
                  examplePlatform ''release'' initialWorld))
     (numberToString (extractVersionNumber (Some ''v8''))) = None
   \<and> fullUrl (fst (extractVersionDetails (manifestServer [(''6'', deltaEntry (Some 5))])
                      examplePlatform (Some ''v8'') ''release'' initialWorld))
       = ''https://game-patches.hytale.com/patches/linux/amd64/release/0/8.pwr''
   \<and> differentialUrl (fst (extractVersionDetails (manifestServer [(''6'', deltaEntry (Some 5))])
                      examplePlatform (Some ''v8'') ''release'' initialWorld)) = None
   \<and> sourceVersion (fst (extractVersionDetails (manifestServer [(''6'', deltaEntry (Some 5))])
                      examplePlatform (Some ''v8'') ''release'' initialWorld)) = Some ''7.pwr''
   \<and> map_of (fst (fetchPatchManifest (manifestServer [(''6'', deltaEntry (Some 5))])
                  examplePlatform ''release'' initialWorld))
     (numberToString (extractVersionNumber (Some ''v6''))) = Some (deltaEntry (Some 5))
   \<and> from_build (deltaEntry (Some 5)) = Some 5
   \<and> sourceVersion (fst (extractVersionDetails (manifestServer [(''6'', deltaEntry (Some 5))])
                      examplePlatform (Some ''v6'') ''release'' initialWorld)) = Some ''5.pwr''"
  using extractVersionDetails_fallbacks[of "manifestServer [(''6'', deltaEntry (Some 5))]"
      examplePlatform "''release''" initialWorld "Some ''v8''" "deltaEntry (Some 5)" 5 8]
    extractVersionDetails_fallbacks[of "manifestServer [(''6'', deltaEntry (Some 5))]"
      examplePlatform "''release''" initialWorld "Some ''v6''" "deltaEntry (Some 5)" 5 6]
  by (simp add: fetchPatchManifest_manifestServer extractVersionNumber_small numberToString_small
      deltaEntry_fields buildArchiveUrl_def BASE_PATCH_URL_def examplePlatform_def)

subsection \<open>No steps for a downgrade\<close>

text \<open>
  With \<^verbatim>\<open>v9007199254740992\<close> both installed and targeted, the current build is not below
  the target build, yet \<open>current + 1\<close> is \<open>2^53\<close> again: the loop is entered and the counter
  never passes the target, so the call does not return.
\<close>

theorem needsIntermediatePatches_equal_unsafe_counterexample:
  "numLe (extractVersionNumber (Some ''v9007199254740992''))
         (extractVersionNumber (Some ''v9007199254740992''))
   \<and> needsIntermediatePatches (Some ''v9007199254740992'') (Some ''v9007199254740992'') = None"
  by (simp add: needsIntermediatePatches_def truthy_def extractVersionNumber_large
      toNumber_above_safe intermediatesLoop_stuck)

text \<open>
  Claim C10, as the code has it. When the parsed current build \<open>c\<close> is an integer with
  \<open>-2^53 \<le> c < 2^53\<close> and the parsed target build is less than or equal to it,
  \<^verbatim>\<open>needsIntermediatePatches\<close> returns the empty list: no step for a downgrade and none for
  a transition between equal builds.
\<close>

theorem needsIntermediatePatches_no_downgrade:
  assumes "extractVersionNumber currentVersion = Finite c" "- (2 ^ 53) \<le> c" "c < 2 ^ 53"
    and "numLe (extractVersionNumber targetVersion) (extractVersionNumber currentVersion)"
  shows "needsIntermediatePatches currentVersion targetVersion = Some []"
proof (cases "truthy currentVersion")
  case False
  then show ?thesis by (simp add: needsIntermediatePatches_def)
next
  case True
  from assms(1,4) have "\<not> numLe (Finite (c + 1)) (extractVersionNumber targetVersion)"
    by (cases "extractVersionNumber targetVersion") simp_all
  then have "intermediatesLoop (Finite (c + 1)) (extractVersionNumber targetVersion) [] = Some []"
    by (subst intermediatesLoop.simps) simp
  with True show ?thesis
    by (simp add: needsIntermediatePatches_def assms(1) plus_one_exact[OF assms(2,3)]
        del: numAdd.simps)
qed

theorem needsIntermediatePatches_no_downgrade_witness:
  "extractVersionNumber (Some ''v8'') = Finite 8
   \<and> numLe (extractVersionNumber (Some ''v5'')) (extractVersionNumber (Some ''v8''))
   \<and> needsIntermediatePatches (Some ''v8'') (Some ''v5'') = Some []
   \<and> numLe (extractVersionNumber (Some ''v8'')) (extractVersionNumber (Some ''v8''))
   \<and> needsIntermediatePatches (Some ''v8'') (Some ''v8'') = Some []"
proof -
  have e: "extractVersionNumber (Some ''v8'') = Finite 8" by (rule extractVersionNumber_small)
  have a: "numLe (extractVersionNumber (Some ''v5'')) (extractVersionNumber (Some ''v8''))"
    by (simp add: extractVersionNumber_small)
  have b: "numLe (extractVersionNumber (Some ''v8'')) (extractVersionNumber (Some ''v8''))"
    by (simp add: extractVersionNumber_small)
  have lo: "- (2 ^ 53) \<le> (8::int)" and hi: "(8::int) < 2 ^ 53" by simp_all
  show ?thesis
    using e a b needsIntermediatePatches_no_downgrade[OF e lo hi a]
      needsIntermediatePatches_no_downgrade[OF e lo hi b]
    by simp
qed

end
